theory Spec2Isabelle
  imports Complex_Main "HOL-Library.Code_Target_Nat" "HOL-Library.Multiset"
begin

section \<open>JavaScript values used by the ShortsRanker modules\<close>

text \<open>
  The three library modules of the repository (video-processor, script-generator,
  tts-service) and the two route handlers are TypeScript. Their strings are sequences
  of UTF-16 code units, their numbers are IEEE double-precision values. Both are
  modelled here as far as the verified functions use them.

  A string is the list of its code units (natural numbers); \<open>js\<close> embeds an ASCII
  literal. The emoji glyphs of the script templates are surrogate pairs.
\<close>

type_synonym jsstring = "nat list"

definition js :: "string \<Rightarrow> jsstring" where
  "js s = map of_char s"

text \<open>
  The regular-expression class \<open>\s\<close> and \<open>String.prototype.trim\<close> share one set of
  code units: the ECMAScript WhiteSpace and LineTerminator productions.
\<close>

definition isWhiteSpace :: "nat \<Rightarrow> bool" where
  "isWhiteSpace c \<longleftrightarrow>
     c \<in> set [9, 10, 11, 12, 13, 32, 160, 5760, 8232, 8233, 8239, 8287, 12288, 65279]
     \<or> (8192 \<le> c \<and> c \<le> 8202)"

text \<open>
  \<open>s.split(/\s+/)\<close>: the pieces of \<open>s\<close> between maximal runs of white space. A run
  at the very start or the very end of \<open>s\<close> leaves an empty piece there, and the empty
  string splits into one empty piece. \<open>piece cur rest\<close> scans inside a piece,
  \<open>gap rest\<close> scans inside a run of white space.
\<close>

fun piece :: "jsstring \<Rightarrow> jsstring \<Rightarrow> jsstring list"
  and gap :: "jsstring \<Rightarrow> jsstring list" where
  "piece cur [] = [cur]"
| "piece cur (c # cs) = (if isWhiteSpace c then cur # gap cs else piece (cur @ [c]) cs)"
| "gap [] = [[]]"
| "gap (c # cs) = (if isWhiteSpace c then gap cs else piece [c] cs)"

definition split_ws :: "jsstring \<Rightarrow> jsstring list" where
  "split_ws s = piece [] s"

text \<open>
  The specification speaks of the whitespace-delimited tokens of a text: its maximal
  runs of characters that are not white space. This second definition follows the
  specification's words, to be compared with \<open>split_ws\<close>.
\<close>

fun tok :: "jsstring \<Rightarrow> jsstring \<Rightarrow> jsstring list"
  and skipws :: "jsstring \<Rightarrow> jsstring list" where
  "tok cur [] = [cur]"
| "tok cur (c # cs) = (if isWhiteSpace c then cur # skipws cs else tok (cur @ [c]) cs)"
| "skipws [] = []"
| "skipws (c # cs) = (if isWhiteSpace c then skipws cs else tok [c] cs)"


text \<open>\<open>s.split("/")\<close>, for a separator of one code unit.\<close>

fun splitOn :: "nat \<Rightarrow> jsstring \<Rightarrow> jsstring list" where
  "splitOn sep [] = [[]]"
| "splitOn sep (c # cs) =
     (if c = sep then [] # splitOn sep cs
      else (case splitOn sep cs of p # ps \<Rightarrow> (c # p) # ps | [] \<Rightarrow> [[c]]))"

text \<open>
  \<open>String.prototype.toLowerCase\<close> on one code unit. ASCII and Latin-1 capitals move
  to their small letters, the Kelvin sign (U+212A) becomes \<open>k\<close> and the dotted capital
  I (U+0130) becomes \<open>i\<close> followed by a combining dot. These are all the code units
  whose lower case contains an ASCII letter; the other code units outside Latin-1 are
  left as they are, which no comparison with an ASCII word can observe.
\<close>

definition lowerUnit :: "nat \<Rightarrow> jsstring" where
  "lowerUnit c =
     (if 65 \<le> c \<and> c \<le> 90 then [c + 32]
      else if 192 \<le> c \<and> c \<le> 222 \<and> c \<noteq> 215 then [c + 32]
      else if c = 8490 then [107]
      else if c = 304 then [105, 775]
      else [c])"

definition toLowerCase :: "jsstring \<Rightarrow> jsstring" where
  "toLowerCase s = concat (map lowerUnit s)"

definition endsWith :: "jsstring \<Rightarrow> jsstring \<Rightarrow> bool" where
  "endsWith s suffix \<longleftrightarrow>
     length suffix \<le> length s \<and> drop (length s - length suffix) s = suffix"

text \<open>Template literals print an integer in decimal.\<close>

fun showNat :: "nat \<Rightarrow> jsstring" where
  "showNat n = (if n < 10 then [48 + n] else showNat (n div 10) @ [48 + n mod 10])"

declare showNat.simps [simp del]

definition showInt :: "int \<Rightarrow> jsstring" where
  "showInt i = (if i < 0 then 45 # showNat (nat (- i)) else showNat (nat i))"

subsection \<open>Numbers\<close>

text \<open>
  A finite double is modelled by its exact rational value, and every arithmetic
  operation rounds its exact result to the nearest double, ties to the even
  significand (\<open>flq\<close>): \<open>expo q\<close> is the binary exponent of \<open>q\<close>, and the result keeps
  53 significant bits. The exponent range is taken as unbounded (no overflow, no
  subnormal numbers) and the sign of zero is not represented; the verified code
  divides and multiplies integers far below \<open>2^53\<close> and only ever divides by the
  positive zero.
\<close>

function bitlen :: "int \<Rightarrow> nat" where
  "bitlen n = (if n \<le> 0 then 0 else Suc (bitlen (n div 2)))"
  by pat_completeness auto
termination
  by (relation "measure nat") auto

declare bitlen.simps [simp del]

definition pow2 :: "int \<Rightarrow> rat" where
  "pow2 e = (if 0 \<le> e then 2 ^ nat e else 1 / 2 ^ nat (- e))"

definition expo :: "rat \<Rightarrow> int" where
  "expo q = (let a = \<bar>q\<bar> in
     if 1 \<le> a then int (bitlen \<lfloor>a\<rfloor>) - 1
     else - int (bitlen (\<lceil>1 / a\<rceil> - 1)))"

definition roundEven :: "rat \<Rightarrow> int" where
  "roundEven m = (let f = \<lfloor>m\<rfloor>; d = m - of_int f in
     if d < 1 / 2 then f else if 1 / 2 < d then f + 1 else if even f then f else f + 1)"

definition flq :: "rat \<Rightarrow> rat" where
  "flq q = (if q = 0 then 0 else
     let u = pow2 (expo q - 52) in of_int (roundEven (q / u)) * u)"

datatype jsnum = Fin rat | NaN | PosInf | NegInf

fun js_div :: "jsnum \<Rightarrow> jsnum \<Rightarrow> jsnum" where
  "js_div (Fin a) (Fin b) =
     (if b = 0 then (if a = 0 then NaN else if 0 < a then PosInf else NegInf)
      else Fin (flq (a / b)))"
| "js_div (Fin a) PosInf = Fin 0"
| "js_div (Fin a) NegInf = Fin 0"
| "js_div PosInf (Fin b) = (if 0 \<le> b then PosInf else NegInf)"
| "js_div NegInf (Fin b) = (if 0 \<le> b then NegInf else PosInf)"
| "js_div _ _ = NaN"

fun js_gt :: "jsnum \<Rightarrow> jsnum \<Rightarrow> bool" where
  "js_gt (Fin a) (Fin b) = (b < a)"
| "js_gt PosInf (Fin b) = True"
| "js_gt PosInf NegInf = True"
| "js_gt (Fin a) NegInf = True"
| "js_gt _ _ = False"

definition js_lt :: "jsnum \<Rightarrow> jsnum \<Rightarrow> bool" where
  "js_lt a b = js_gt b a"

text \<open>A number in a condition: zero and NaN count as false.\<close>

fun truthyNum :: "jsnum \<Rightarrow> bool" where
  "truthyNum (Fin a) = (a \<noteq> 0)"
| "truthyNum NaN = False"
| "truthyNum _ = True"

text \<open>A string in a condition: \<open>undefined\<close> and the empty string count as false.\<close>

fun truthy :: "jsstring option \<Rightarrow> bool" where
  "truthy None = False"
| "truthy (Some s) = (s \<noteq> [])"

section \<open>Media probe: frame rates\<close>

text \<open>
  \<open>evalFps\<close> of the video processor. \<open>Number\<close> and \<open>parseFloat\<close> are the language's
  own conversions from strings and are parameters of the model. With a slash in the
  string, the first two pieces become numerator and denominator; a denominator that is
  zero or not a number gives 30, and otherwise the result is the quotient of two
  doubles.
\<close>

definition evalFps :: "(jsstring \<Rightarrow> jsnum) \<Rightarrow> (jsstring \<Rightarrow> jsnum) \<Rightarrow> jsstring \<Rightarrow> jsnum" where
  "evalFps Number parseFloat fpsString =
     (if 47 \<in> set fpsString then
        (case map Number (splitOn 47 fpsString) of
           num # den # _ \<Rightarrow> if truthyNum den then js_div num den else Fin 30
         | _ \<Rightarrow> Fin 30)
      else (let p = parseFloat fpsString in if truthyNum p then p else Fin 30))"

text \<open>
  \<open>Number\<close> on an optionally signed string of decimal digits, the form of the two
  halves of a frame rate \<open>N/D\<close>. It is used to instantiate the parameter above; on
  other strings it answers NaN, which is what the language does only for some of them.
\<close>

fun digitsValue :: "int \<Rightarrow> jsstring \<Rightarrow> int option" where
  "digitsValue acc [] = Some acc"
| "digitsValue acc (c # cs) =
     (if 48 \<le> c \<and> c \<le> 57 then digitsValue (10 * acc + int (c - 48)) cs else None)"

definition decimalNumber :: "jsstring \<Rightarrow> jsnum" where
  "decimalNumber s =
     (case s of
        [] \<Rightarrow> Fin 0
      | c # cs \<Rightarrow>
          if c = 45 \<and> cs \<noteq> [] then
            (case digitsValue 0 cs of Some n \<Rightarrow> Fin (flq (- of_int n)) | None \<Rightarrow> NaN)
          else if c = 43 \<and> cs \<noteq> [] then
            (case digitsValue 0 cs of Some n \<Rightarrow> Fin (flq (of_int n)) | None \<Rightarrow> NaN)
          else (case digitsValue 0 s of Some n \<Rightarrow> Fin (flq (of_int n)) | None \<Rightarrow> NaN))"

section \<open>Speech synthesizer: choosing the backend\<close>

datatype TTSService = Mock | HuggingFace | ElevenLabs | Coqui

fun serviceName :: "TTSService \<Rightarrow> jsstring" where
  "serviceName Mock = js ''mock''"
| "serviceName HuggingFace = js ''huggingface''"
| "serviceName ElevenLabs = js ''elevenlabs''"
| "serviceName Coqui = js ''coqui''"

text \<open>
  The process environment maps variable names to their values. \<open>serviceOfName\<close> is
  the membership test \<open>["mock", "huggingface", "elevenlabs", "coqui"].includes(s)\<close>
  together with the cast of the string to the service it names.
\<close>

type_synonym env = "string \<Rightarrow> jsstring option"

definition serviceOfName :: "jsstring \<Rightarrow> TTSService option" where
  "serviceOfName s =
     (if s = js ''mock'' then Some Mock
      else if s = js ''huggingface'' then Some HuggingFace
      else if s = js ''elevenlabs'' then Some ElevenLabs
      else if s = js ''coqui'' then Some Coqui
      else None)"

definition explicitService :: "env \<Rightarrow> TTSService option" where
  "explicitService e =
     (case e ''TTS_SERVICE'' of
        None \<Rightarrow> None
      | Some v \<Rightarrow> serviceOfName (toLowerCase v))"

definition detectTTSService :: "env \<Rightarrow> TTSService" where
  "detectTTSService e =
     (case explicitService e of
        Some svc \<Rightarrow> svc
      | None \<Rightarrow>
          if truthy (e ''ELEVENLABS_API_KEY'') then ElevenLabs
          else if truthy (e ''HUGGINGFACE_API_KEY'') then HuggingFace
          else if e ''USE_COQUI_TTS'' = Some (js ''true'') then Coqui
          else Mock)"

section \<open>The host: external tools, files and library functions\<close>

text \<open>
  The modules run external commands (\<open>ffmpeg\<close>, \<open>ffprobe\<close>, \<open>python3\<close>), write
  files, call remote services and draw random numbers. Each of these is an oracle of
  the record \<open>host\<close>; the oracles of the command line and of the file system see the
  events that happened so far, so the same command may succeed once and fail later.
  An event log is threaded through every effectful function. \<open>exec\<close> answers
  \<open>None\<close> when the command succeeds and the diagnostic text when it fails;
  \<open>probe\<close> answers what \<open>JSON.parse\<close> makes of the output of \<open>ffprobe\<close>, or
  \<open>None\<close> when the command fails or its output does not parse. Creating
  directories and deleting files are taken to succeed and leave no event.
  \<open>synthesize\<close> stands for the steps a configured remote or local speech backend
  takes to produce its audio file (requests, chunking, temporary files): it answers
  the events it caused and, when it failed, the message of the failure.
  \<open>parseInt\<close> answers \<open>None\<close> for NaN, also when the form field is missing.
\<close>

datatype event = Exec jsstring | WriteFile jsstring jsstring | Unlink jsstring

datatype error = Error jsstring

record probeStream =
  stream_width :: "int option"
  stream_height :: "int option"
  stream_duration :: "jsstring option"
  r_frame_rate :: "jsstring option"
  codec_name :: "jsstring option"

record probeOutput =
  videoStream :: "probeStream option"
  audioStream :: bool
  format_duration :: "jsstring option"

datatype fetchOutcome = Threw | NotOk | Generated "jsstring option"

record host =
  exec :: "event list \<Rightarrow> jsstring \<Rightarrow> jsstring option"
  probe :: "event list \<Rightarrow> jsstring \<Rightarrow> probeOutput option"
  writeFile :: "event list \<Rightarrow> jsstring \<Rightarrow> jsstring option"
  pathJoin :: "jsstring \<Rightarrow> jsstring \<Rightarrow> jsstring"
  Number :: "jsstring \<Rightarrow> jsnum"
  parseFloat :: "jsstring \<Rightarrow> jsnum"
  numberToString :: "rat \<Rightarrow> jsstring"
  random :: "nat \<Rightarrow> rat"
  fetchText :: "jsstring \<Rightarrow> jsstring \<Rightarrow> jsstring \<Rightarrow> fetchOutcome"
  synthesize :: "event list \<Rightarrow> jsstring \<Rightarrow> jsstring \<Rightarrow> jsstring \<Rightarrow> event list \<times> jsstring option"
  ttsTempDir :: jsstring
  now :: "event list \<Rightarrow> nat"
  parseInt :: "jsstring option \<Rightarrow> int option"
  extname :: "jsstring \<Rightarrow> jsstring"
  readFile :: "event list \<Rightarrow> jsstring \<Rightarrow> jsstring option"

type_synonym 'a io = "event list \<times> (error + 'a)"

definition thenDo :: "'a io \<Rightarrow> (event list \<Rightarrow> 'a \<Rightarrow> 'b io) \<Rightarrow> 'b io" where
  "thenDo r f = (case r of (lg, Inl e) \<Rightarrow> (lg, Inl e) | (lg, Inr x) \<Rightarrow> f lg x)"

text \<open>A number in a template literal: integers in decimal, the rest by the host.\<close>

definition showNumber :: "host \<Rightarrow> rat \<Rightarrow> jsstring" where
  "showNumber H q = (if q = of_int \<lfloor>q\<rfloor> then showInt \<lfloor>q\<rfloor> else numberToString H q)"

definition joinWith :: "jsstring \<Rightarrow> jsstring list \<Rightarrow> jsstring" where
  "joinWith sep xs = (case xs of [] \<Rightarrow> [] | y # ys \<Rightarrow> y @ concat (map (\<lambda>z. sep @ z) ys))"

definition quoted :: "jsstring \<Rightarrow> jsstring" where
  "quoted p = [34] @ p @ [34]"

section \<open>Video processor\<close>

subsection \<open>Configuration and types\<close>

definition targetWidth :: int where "targetWidth = 1080"
definition targetHeight :: int where "targetHeight = 1920"
definition targetFps :: int where "targetFps = 30"
definition videoCodec :: jsstring where "videoCodec = js ''libx264''"
definition videoPreset :: jsstring where "videoPreset = js ''fast''"
definition videoCrf :: int where "videoCrf = 23"
definition audioCodec :: jsstring where "audioCodec = js ''aac''"
definition audioBitrate :: jsstring where "audioBitrate = js ''192k''"
definition audioSampleRate :: int where "audioSampleRate = 44100"

record VideoInfo =
  width :: int
  height :: int
  duration :: jsnum
  fps :: jsnum
  hasAudio :: bool
  codec :: jsstring

record RankedVideo =
  path :: jsstring
  rank :: rat
  description :: "jsstring option"


subsection \<open>Running the tools\<close>

definition runFFmpeg :: "host \<Rightarrow> event list \<Rightarrow> jsstring \<Rightarrow> unit io" where
  "runFFmpeg H lg command =
     (case exec H lg command of
        None \<Rightarrow> (lg @ [Exec command], Inr ())
      | Some diagnostic \<Rightarrow>
          (lg @ [Exec command], Inl (Error (js ''FFmpeg failed: '' @ diagnostic))))"

definition defaultVideoInfo :: VideoInfo where
  "defaultVideoInfo =
     \<lparr>width = 0, height = 0, duration = Fin 0, fps = Fin 30, hasAudio = False,
      codec = js ''unknown''\<rparr>"

definition orElse :: "'a option \<Rightarrow> 'a \<Rightarrow> 'a" where
  "orElse v d = (case v of None \<Rightarrow> d | Some x \<Rightarrow> x)"

definition firstTruthy :: "jsstring option \<Rightarrow> jsstring option \<Rightarrow> jsstring option" where
  "firstTruthy a b = (if truthy a then a else b)"

text \<open>
  \<open>getVideoInfo\<close>: a failed probe gives the default record with width and height 0;
  a successful one reads the first video stream, any missing field falling back to
  its default.
\<close>

definition probeCommand :: "jsstring \<Rightarrow> jsstring" where
  "probeCommand videoPath =
     js ''ffprobe -v quiet -print_format json -show_streams -show_format '' @ quoted videoPath"

definition getVideoInfo :: "host \<Rightarrow> event list \<Rightarrow> jsstring \<Rightarrow> event list \<times> VideoInfo" where
  "getVideoInfo H lg videoPath =
     (let command = probeCommand videoPath
      in (lg @ [Exec command],
          case probe H lg command of
            None \<Rightarrow> defaultVideoInfo
          | Some info \<Rightarrow>
              \<lparr>width = orElse (Option.bind (videoStream info) stream_width) 0,
               height = orElse (Option.bind (videoStream info) stream_height) 0,
               duration = parseFloat H
                 (orElse (firstTruthy (firstTruthy (format_duration info)
                    (Option.bind (videoStream info) stream_duration)) (Some (js ''0''))) (js ''0'')),
               fps = evalFps (Number H) (parseFloat H)
                 (orElse (firstTruthy (Option.bind (videoStream info) r_frame_rate) (Some (js ''30/1'')))
                    (js ''30/1'')),
               hasAudio = audioStream info,
               codec = orElse (firstTruthy (Option.bind (videoStream info) codec_name)
                    (Some (js ''unknown''))) (js ''unknown'')\<rparr>))"

subsection \<open>Normalization\<close>

definition targetAspect :: jsnum where
  "targetAspect = js_div (Fin (of_int targetWidth)) (Fin (of_int targetHeight))"

definition inputAspect :: "int \<Rightarrow> int \<Rightarrow> jsnum" where
  "inputAspect inW inH = js_div (Fin (of_int inW)) (Fin (of_int inH))"

definition cropWidth :: "int \<Rightarrow> int" where
  "cropWidth inH = round (flq (of_int inH * (case targetAspect of Fin a \<Rightarrow> a | _ \<Rightarrow> 0)))"

definition cropX :: "int \<Rightarrow> int \<Rightarrow> int" where
  "cropX inW inH = round (flq (flq (of_int inW - of_int (cropWidth inH)) / 2))"

definition cropFilter :: "int \<Rightarrow> int \<Rightarrow> jsstring" where
  "cropFilter inW inH =
     joinWith (js '','')
       [js ''crop='' @ showInt (cropWidth inH) @ js '':'' @ showInt inH @ js '':''
          @ showInt (cropX inW inH) @ js '':0'',
        js ''scale='' @ showInt targetWidth @ js '':'' @ showInt targetHeight,
        js ''setsar=1'',
        js ''fps='' @ showInt targetFps]"

definition padFilter :: jsstring where
  "padFilter =
     joinWith (js '','')
       [js ''scale='' @ showInt targetWidth @ js '':-2'',
        js ''pad='' @ showInt targetWidth @ js '':'' @ showInt targetHeight
          @ js '':(ow-iw)/2:(oh-ih)/2:black'',
        js ''setsar=1'',
        js ''fps='' @ showInt targetFps]"

definition scaleFilter :: jsstring where
  "scaleFilter =
     joinWith (js '','')
       [js ''scale='' @ showInt targetWidth @ js '':'' @ showInt targetHeight,
        js ''setsar=1'',
        js ''fps='' @ showInt targetFps]"

definition filterComplex :: "int \<Rightarrow> int \<Rightarrow> jsstring" where
  "filterComplex inW inH =
     (if js_gt (inputAspect inW inH) targetAspect then cropFilter inW inH
      else if js_lt (inputAspect inW inH) targetAspect then padFilter
      else scaleFilter)"

definition normalizeCommand :: "jsstring \<Rightarrow> jsstring \<Rightarrow> jsstring \<Rightarrow> jsstring" where
  "normalizeCommand inputPath filt outPath =
     joinWith (js '' '')
       [js ''ffmpeg -y'',
        js ''-i '' @ quoted inputPath,
        js ''-vf '' @ quoted filt,
        js ''-c:v '' @ videoCodec,
        js ''-preset '' @ videoPreset,
        js ''-crf '' @ showInt videoCrf,
        js ''-c:a '' @ audioCodec,
        js ''-b:a '' @ audioBitrate,
        js ''-movflags +faststart'',
        quoted outPath]"

definition normalizeVideo :: "host \<Rightarrow> event list \<Rightarrow> jsstring \<Rightarrow> jsstring \<Rightarrow> VideoInfo io" where
  "normalizeVideo H lg inputPath outPath =
     (case getVideoInfo H lg inputPath of
        (log1, inputInfo) \<Rightarrow>
          thenDo (runFFmpeg H log1
                    (normalizeCommand inputPath
                       (filterComplex (width inputInfo) (height inputInfo)) outPath))
            (\<lambda>log2 _. case getVideoInfo H log2 outPath of (log3, info) \<Rightarrow> (log3, Inr info)))"

subsection \<open>Ranking overlay\<close>






subsection \<open>Sorting and concatenation\<close>

text \<open>
  \<open>[...videos].sort((a, b) => b.rank - a.rank)\<close>: the engine's sort is stable, and the
  comparator orders by descending rank. \<open>sort_key\<close> is the stable insertion sort of
  the library; the key is the negated rank.
\<close>

definition sortVideosByRank :: "RankedVideo list \<Rightarrow> RankedVideo list" where
  "sortVideosByRank videos = sort_key (\<lambda>v. - rank v) videos"




subsection \<open>Audio\<close>




subsection \<open>The pipeline\<close>

datatype AudioMode = Replace | Mix

record ProcessingOptions =
  videos :: "RankedVideo list"
  audioPath :: jsstring
  finalPath :: jsstring
  tempDir :: jsstring
  addOverlays :: "bool option"
  audioMode :: "AudioMode option"
  originalAudioVolume :: "rat option"








section \<open>Script generator\<close>

subsection \<open>Types and configuration\<close>

datatype Style = Energetic | Casual | Professional

record RankingItem =
  item_rank :: rat
  titleOrName :: jsstring
  item_description :: "jsstring option"

record ScriptOptions =
  option_topic :: "jsstring option"
  option_style :: "Style option"
  option_includeEmojis :: "bool option"
  option_useLLM :: "bool option"

record ScriptResult =
  script :: jsstring
  wasPolished :: bool
  wordCount :: nat
  estimatedDuration :: int

definition wordsPerMinute :: rat where "wordsPerMinute = 150"

definition huggingFaceAPI :: jsstring where
  "huggingFaceAPI = js ''https://api-inference.huggingface.co/models''"

definition defaultModel :: jsstring where
  "defaultModel = js ''mistralai/Mistral-7B-Instruct-v0.2''"

definition fallbackModels :: "jsstring list" where
  "fallbackModels = [js ''HuggingFaceH4/zephyr-7b-beta'', js ''google/flan-t5-large'']"

subsection \<open>Phrase banks\<close>

text \<open>
  Every phrase is chosen as \<open>options[Math.floor(Math.random() * options.length)]\<close>.
  \<open>pick H k options\<close> makes the choice with the \<open>k\<close>-th random number of the run;
  an index outside the array reads \<open>undefined\<close>, which the surrounding string
  concatenation prints as that word.
\<close>

definition pick :: "host \<Rightarrow> nat \<Rightarrow> jsstring list \<Rightarrow> jsstring" where
  "pick H k options =
     (let i = \<lfloor>flq (random H k * of_nat (length options))\<rfloor>
      in if 0 \<le> i \<and> i < int (length options) then options ! nat i else js ''undefined'')"

definition emo :: "bool \<Rightarrow> jsstring \<Rightarrow> jsstring" where
  "emo emoji glyph = (if emoji then glyph else [])"

definition intros :: "Style \<Rightarrow> jsstring \<Rightarrow> bool \<Rightarrow> jsstring list" where
  "intros style topicText emoji =
     (case style of
       Energetic \<Rightarrow>
         [js ''What's up everyone! '' @ emo emoji [55357, 56613] @ js '' Welcome back to the channel. Today we're counting down the top 5'' @ topicText @ js '' that absolutely blew our minds. Let's get into it!'',
          js ''Hey there! '' @ emo emoji [55357, 56395] @ js '' You're about to see the most incredible'' @ topicText @ js '' ranked from number 5 all the way to number 1. Trust me, you don't want to miss the top spot!'',
          js ''Welcome to today's countdown! '' @ emo emoji [55356, 57260] @ js '' We've got 5 amazing'' @ topicText @ js '' to show you, and I guarantee number 1 will leave you speechless. Let's go!'']
     | Casual \<Rightarrow>
         [js ''Hey, what's going on? So today I'm ranking the top 5'' @ topicText @ js ''. Let's see what we've got.'',
          js ''Alright, so I put together my top 5'' @ topicText @ js '' for you. Let me know if you agree with this list.'',
          js ''Hey everyone. Today we're looking at my top 5'' @ topicText @ js ''. Some of these might surprise you.'']
     | Professional \<Rightarrow>
         [js ''Welcome. Today we present a curated selection of the top 5'' @ topicText @ js '', ranked for your consideration.'',
          js ''In this presentation, we'll be examining the top 5'' @ topicText @ js '', carefully selected and ranked.'',
          js ''Thank you for joining us. Today's countdown features the top 5'' @ topicText @ js '' in our collection.''])"

definition energeticIntros :: "bool \<Rightarrow> rat \<Rightarrow> jsstring list option" where
  "energeticIntros emoji r =
     (if r = 5 then
        Some [emo emoji [55357, 56633] @ js '' Kicking things off at number 5...'',
              emo emoji [55357, 56633] @ js '' Starting our countdown at number 5, we have...'',
              emo emoji [55357, 56633] @ js '' Coming in at number 5 to get us started...'']
      else if r = 4 then
        Some [emo emoji [55357, 56632] @ js '' Moving up to number 4...'',
              emo emoji [55357, 56632] @ js '' At number 4, things are heating up...'',
              emo emoji [55357, 56632] @ js '' Sliding into the number 4 spot...'']
      else if r = 3 then
        Some [emo emoji [55358, 56649] @ js '' Now we're getting serious! At number 3...'',
              emo emoji [55358, 56649] @ js '' The bronze medal goes to number 3...'',
              emo emoji [55358, 56649] @ js '' Claiming the number 3 spot...'']
      else if r = 2 then
        Some [emo emoji [55358, 56648] @ js '' So close to the top! At number 2...'',
              emo emoji [55358, 56648] @ js '' The runner-up at number 2...'',
              emo emoji [55358, 56648] @ js '' Just barely missing the top spot, at number 2...'']
      else if r = 1 then
        Some [emo emoji [55358, 56647] @ js '' And finally, the moment you've been waiting for! Number 1 is...'',
              emo emoji [55358, 56647] @ js '' The undisputed champion at number 1...'',
              emo emoji [55358, 56647] @ js '' Taking the crown at number 1, we have...'']
      else None)"

definition casualIntros :: "rat \<Rightarrow> jsstring list option" where
  "casualIntros r =
     (if r = 5 then
        Some [js ''At number 5...'',
              js ''Starting off at 5...'',
              js ''Kicking us off...'']
      else if r = 4 then
        Some [js ''Number 4...'',
              js ''Moving to 4...'',
              js ''At 4 we have...'']
      else if r = 3 then
        Some [js ''Now at number 3...'',
              js ''The 3 spot goes to...'',
              js ''Coming in at 3...'']
      else if r = 2 then
        Some [js ''Almost at the top, number 2...'',
              js ''Just missing first, at 2...'',
              js ''The runner-up...'']
      else if r = 1 then
        Some [js ''And number 1...'',
              js ''Taking the top spot...'',
              js ''My number 1 pick...'']
      else None)"

definition professionalIntros :: "rat \<Rightarrow> jsstring list option" where
  "professionalIntros r =
     (if r = 5 then
        Some [js ''Beginning at position five...'',
              js ''In fifth position...'',
              js ''Our fifth entry...'']
      else if r = 4 then
        Some [js ''At position four...'',
              js ''Moving to fourth place...'',
              js ''Fourth in our ranking...'']
      else if r = 3 then
        Some [js ''In third position...'',
              js ''Our bronze placement...'',
              js ''At number three...'']
      else if r = 2 then
        Some [js ''In second position...'',
              js ''Our silver placement...'',
              js ''Taking second place...'']
      else if r = 1 then
        Some [js ''Our top selection...'',
              js ''In first position...'',
              js ''The leading entry...'']
      else None)"

definition energeticDescriptions :: "jsstring \<Rightarrow> rat \<Rightarrow> jsstring list option" where
  "energeticDescriptions cleanTitle r =
     (if r = 5 then
        Some [js ''This one kicks off our list perfectly. '' @ cleanTitle @ js '' sets the bar high right from the start!'',
              js ''A solid entry to begin our countdown. '' @ cleanTitle @ js '' shows us what we're working with!'']
      else if r = 4 then
        Some [js ''Now we're talking! '' @ cleanTitle @ js '' really impressed us and earned this spot.'',
              js ''Things are getting better. '' @ cleanTitle @ js '' brings the heat at number 4!'']
      else if r = 3 then
        Some [js ''This is where it gets competitive. '' @ cleanTitle @ js '' is absolutely top-tier content!'',
              js ''On the podium at number 3! '' @ cleanTitle @ js '' definitely deserves this recognition.'']
      else if r = 2 then
        Some [js ''So incredibly close to the top! '' @ cleanTitle @ js '' is absolutely phenomenal. Any other day, this could've been number 1!'',
              js ''The runner-up is no joke. '' @ cleanTitle @ js '' had us on the edge of our seats!'']
      else if r = 1 then
        Some [js ''The champion! '' @ cleanTitle @ js '' blew everything else out of the water. This is peak content right here!'',
              js ''Absolutely unbeatable! '' @ cleanTitle @ js '' earned this spot and then some. Simply incredible!'']
      else None)"

definition casualDescriptions :: "jsstring \<Rightarrow> rat \<Rightarrow> jsstring list option" where
  "casualDescriptions cleanTitle r =
     (if r = 5 then
        Some [cleanTitle @ js '' is a good starting point.'',
              js ''Solid pick with '' @ cleanTitle @ js ''.'']
      else if r = 4 then
        Some [cleanTitle @ js '' is really good.'',
              js ''I liked '' @ cleanTitle @ js '' a lot.'']
      else if r = 3 then
        Some [cleanTitle @ js '' is excellent.'',
              js ''Really impressed by '' @ cleanTitle @ js ''.'']
      else if r = 2 then
        Some [cleanTitle @ js '' almost took the top spot.'',
              js ''So close! '' @ cleanTitle @ js '' is amazing.'']
      else if r = 1 then
        Some [cleanTitle @ js '' is my favorite.'',
              js ''Had to give it to '' @ cleanTitle @ js ''. The best!'']
      else None)"

definition professionalDescriptions :: "jsstring \<Rightarrow> rat \<Rightarrow> jsstring list option" where
  "professionalDescriptions cleanTitle r =
     (if r = 5 then
        Some [cleanTitle @ js '' demonstrates notable qualities that merit inclusion.'']
      else if r = 4 then
        Some [cleanTitle @ js '' exhibits commendable attributes worthy of recognition.'']
      else if r = 3 then
        Some [cleanTitle @ js '' stands out with exceptional merit and quality.'']
      else if r = 2 then
        Some [cleanTitle @ js '' presents outstanding characteristics, narrowly missing first.'']
      else if r = 1 then
        Some [cleanTitle @ js '' exemplifies the highest standard in this category.'']
      else None)"

definition outros :: "Style \<Rightarrow> bool \<Rightarrow> jsstring list" where
  "outros style emoji =
     (case style of
       Energetic \<Rightarrow>
         [[10, 10] @ js ''And that wraps up our top 5! '' @ emo emoji [55357, 56908] @ js '' If you enjoyed this countdown, smash that like button and subscribe for more content like this. Drop a comment below telling me which one was YOUR favorite. See you in the next one!'',
          [10, 10] @ js ''There you have it, folks! The ultimate top 5. '' @ emo emoji [55357, 56495] @ js '' Did your favorite make the list? Let me know in the comments! Don't forget to like and subscribe if you want more countdowns. Peace!'',
          [10, 10] @ js ''What a list! '' @ emo emoji [55357, 56613] @ js '' If you made it this far, you're a real one. Hit that subscribe button and turn on notifications so you never miss a countdown. Until next time!'']
     | Casual \<Rightarrow>
         [[10, 10] @ js ''So that's my top 5. Let me know in the comments what you think. See you next time.'',
          [10, 10] @ js ''That's the list. Would love to hear your thoughts. Thanks for watching.'',
          [10, 10] @ js ''And that's it! Hope you enjoyed. Leave a comment with your picks.'']
     | Professional \<Rightarrow>
         [[10, 10] @ js ''This concludes our presentation of the top 5 selections. We welcome your feedback and comments.'',
          [10, 10] @ js ''Thank you for your attention. We hope you found this ranking informative and engaging.'',
          [10, 10] @ js ''This concludes our ranking. We appreciate your viewership and welcome your perspectives.''])"

subsection \<open>Template script\<close>

definition getIntro :: "host \<Rightarrow> nat \<Rightarrow> jsstring \<Rightarrow> Style \<Rightarrow> bool \<Rightarrow> jsstring" where
  "getIntro H k topicText style emoji = pick H k (intros style topicText emoji)"

definition getRankIntro :: "host \<Rightarrow> nat \<Rightarrow> rat \<Rightarrow> Style \<Rightarrow> bool \<Rightarrow> jsstring" where
  "getRankIntro H k r style emoji =
     pick H k
       (orElse (case style of
                  Energetic \<Rightarrow> energeticIntros emoji r
                | Casual \<Rightarrow> casualIntros r
                | Professional \<Rightarrow> professionalIntros r)
          [js ''At number '' @ showNumber H r @ js ''...''])"

text \<open>
  \<open>title.replace(/\.[^/.]+$/, "")\<close> and the same with another class and replacement
  in the speech synthesizer: the leftmost position where a dot is followed, up to the
  end of the string, by one or more code units of the class. \<open>replaceExtension\<close>
  tries each position in turn, as the regular-expression search does.
\<close>

fun replaceExtension :: "(nat \<Rightarrow> bool) \<Rightarrow> jsstring \<Rightarrow> jsstring \<Rightarrow> jsstring" where
  "replaceExtension inClass replacement [] = []"
| "replaceExtension inClass replacement (c # cs) =
     (if c = 46 \<and> cs \<noteq> [] \<and> list_all inClass cs then replacement
      else c # replaceExtension inClass replacement cs)"

definition cleanTitleOf :: "jsstring \<Rightarrow> jsstring" where
  "cleanTitleOf title =
     map (\<lambda>c. if c = 45 \<or> c = 95 then 32 else c)
       (replaceExtension (\<lambda>c. c \<noteq> 47 \<and> c \<noteq> 46) [] title)"

definition getDefaultDescription :: "host \<Rightarrow> nat \<Rightarrow> rat \<Rightarrow> jsstring \<Rightarrow> Style \<Rightarrow> jsstring" where
  "getDefaultDescription H k r title style =
     (let cleanTitle = cleanTitleOf title in
      pick H k
        (orElse (case style of
                   Energetic \<Rightarrow> energeticDescriptions cleanTitle r
                 | Casual \<Rightarrow> casualDescriptions cleanTitle r
                 | Professional \<Rightarrow> professionalDescriptions cleanTitle r)
           [js ''An impressive entry that deserves recognition.'']))"

definition getOutro :: "host \<Rightarrow> nat \<Rightarrow> Style \<Rightarrow> bool \<Rightarrow> jsstring" where
  "getOutro H k style emoji = pick H k (outros style emoji)"

definition trim :: "jsstring \<Rightarrow> jsstring" where
  "trim s = rev (dropWhile isWhiteSpace (rev (dropWhile isWhiteSpace s)))"

text \<open>
  The loop over the items. A description left out or blank is replaced by a canned
  sentence, which costs one more random number. The result carries the index of the
  next random number.
\<close>

fun rankingSections :: "host \<Rightarrow> Style \<Rightarrow> bool \<Rightarrow> nat \<Rightarrow> RankingItem list \<Rightarrow> jsstring \<times> nat" where
  "rankingSections H style emoji k [] = ([], k)"
| "rankingSections H style emoji k (item # rest) =
     (let rankIntro = getRankIntro H k (item_rank item) style emoji;
          given = (case item_description item of
                     None \<Rightarrow> None
                   | Some d \<Rightarrow> if trim d \<noteq> [] then Some d else None);
          body = (case given of
                     Some d \<Rightarrow> d
                   | None \<Rightarrow> getDefaultDescription H (Suc k) (item_rank item) (titleOrName item) style);
          k1 = (case given of Some _ \<Rightarrow> Suc k | None \<Rightarrow> Suc (Suc k))
      in case rankingSections H style emoji k1 rest of
           (later, k2) \<Rightarrow> ([10, 10] @ rankIntro @ [10] @ body @ later, k2))"

definition generateTemplateScript :: "host \<Rightarrow> nat \<Rightarrow> RankingItem list \<Rightarrow> jsstring option \<Rightarrow> Style \<Rightarrow> bool \<Rightarrow> jsstring" where
  "generateTemplateScript H k items topic style emoji =
     (let topicText = (case topic of
                         Some t \<Rightarrow> if t \<noteq> [] then js '' '' @ t else js '' clips''
                       | None \<Rightarrow> js '' clips'');
          intro = getIntro H k topicText style emoji
      in case rankingSections H style emoji (Suc k) items of
           (sections, k1) \<Rightarrow> intro @ sections @ getOutro H k1 style emoji)"

subsection \<open>Polishing with a remote model\<close>

definition buildPolishPrompt :: "jsstring \<Rightarrow> jsstring option \<Rightarrow> jsstring" where
  "buildPolishPrompt baseScript topic =
     (let topicContext = (case topic of
                            Some t \<Rightarrow> if t \<noteq> [] then js '' about '' @ t else []
                          | None \<Rightarrow> [])
      in js ''<s>[INST] You are a professional YouTube script writer. Rewrite the following countdown video script''
         @ topicContext
         @ js '' to make it more engaging and natural-sounding while keeping the same structure and information. Keep the same ranking order and general content, but improve the flow and add personality.''
         @ [10, 10] @ js ''Original script:'' @ [10] @ baseScript
         @ [10, 10] @ js ''Rewritten script: [/INST]'')"

text \<open>
  The regular expressions of \<open>cleanLLMOutput\<close>. \<open>removeAlternatives alts n s\<close> deletes
  every occurrence of one of the words \<open>alts\<close> from left to right (\<open>n\<close> counts the
  code units of an occurrence still to be dropped); \<open>prefixCI\<close> matches a word at the
  start of a string without regard to the case of ASCII letters and returns the rest.
\<close>

definition startsWith :: "jsstring \<Rightarrow> jsstring \<Rightarrow> bool" where
  "startsWith s p \<longleftrightarrow> take (length p) s = p"

definition matchLength :: "jsstring list \<Rightarrow> jsstring \<Rightarrow> nat option" where
  "matchLength alts s =
     (case filter (\<lambda>a. a \<noteq> [] \<and> startsWith s a) alts of
        [] \<Rightarrow> None
      | a # _ \<Rightarrow> Some (length a))"

fun removeAlternatives :: "jsstring list \<Rightarrow> nat \<Rightarrow> jsstring \<Rightarrow> jsstring" where
  "removeAlternatives alts n [] = []"
| "removeAlternatives alts (Suc n) (c # cs) = removeAlternatives alts n cs"
| "removeAlternatives alts 0 (c # cs) =
     (case matchLength alts (c # cs) of
        Some len \<Rightarrow> removeAlternatives alts (len - 1) cs
      | None \<Rightarrow> c # removeAlternatives alts 0 cs)"

definition upperAscii :: "nat \<Rightarrow> nat" where
  "upperAscii c = (if 97 \<le> c \<and> c \<le> 122 then c - 32 else c)"

fun prefixCI :: "jsstring \<Rightarrow> jsstring \<Rightarrow> jsstring option" where
  "prefixCI [] s = Some s"
| "prefixCI (p # ps) [] = None"
| "prefixCI (p # ps) (c # cs) =
     (if upperAscii p = upperAscii c then prefixCI ps cs else None)"

fun firstPrefixCI :: "jsstring list \<Rightarrow> jsstring \<Rightarrow> jsstring option" where
  "firstPrefixCI [] s = None"
| "firstPrefixCI (w # ws) s =
     (case prefixCI w s of Some rest \<Rightarrow> Some rest | None \<Rightarrow> firstPrefixCI ws s)"

definition stripPreamble :: "jsstring \<Rightarrow> jsstring" where
  "stripPreamble s =
     (case firstPrefixCI [js ''Rewritten script:'', js ''Here'' @ [39] @ js ''s'', js ''Here is''] s of
        Some rest \<Rightarrow> dropWhile (\<lambda>c. c = 58 \<or> isWhiteSpace c) rest
      | None \<Rightarrow> s)"

definition introWords :: "jsstring list" where
  "introWords = [js ''What'', js ''Hey'', js ''Welcome'', js ''Alright'', js ''Hi'', js ''Hello'']"

definition isTerminator :: "nat \<Rightarrow> bool" where
  "isTerminator c \<longleftrightarrow> c = 46 \<or> c = 33 \<or> c = 63"

text \<open>
  \<open>/(What|Hey|Welcome|Alright|Hi|Hello)[^.!?]*[.!?]/i\<close> at the start of \<open>s\<close>: the
  first of the words that is followed somewhere by a sentence terminator; the match
  runs up to the first terminator. \<open>findIntro\<close> is the leftmost match in \<open>s\<close>.
\<close>

fun introMatchAt :: "jsstring list \<Rightarrow> jsstring \<Rightarrow> jsstring option" where
  "introMatchAt [] s = None"
| "introMatchAt (w # ws) s =
     (case prefixCI w s of
        Some rest \<Rightarrow>
          if list_ex isTerminator rest
          then Some (take (length w + length (takeWhile (\<lambda>c. \<not> isTerminator c) rest) + 1) s)
          else introMatchAt ws s
      | None \<Rightarrow> introMatchAt ws s)"

fun findIntro :: "jsstring \<Rightarrow> jsstring option" where
  "findIntro [] = None"
| "findIntro (c # cs) =
     (case introMatchAt introWords (c # cs) of
        Some m \<Rightarrow> Some m
      | None \<Rightarrow> findIntro cs)"

fun indexOf :: "jsstring \<Rightarrow> jsstring \<Rightarrow> nat option" where
  "indexOf pat [] = (if pat = [] then Some 0 else None)"
| "indexOf pat (c # cs) =
     (if startsWith (c # cs) pat then Some 0 else map_option Suc (indexOf pat cs))"

definition cleanLLMOutput :: "jsstring \<Rightarrow> jsstring" where
  "cleanLLMOutput text =
     (let cleaned =
            trim (stripPreamble
              (removeAlternatives [js ''[INST]'', js ''[/INST]''] 0
                 (removeAlternatives [js ''</s>'', js ''<s>''] 0 text)))
      in if firstPrefixCI introWords cleaned \<noteq> None then cleaned
         else (case findIntro cleaned of
                 None \<Rightarrow> cleaned
               | Some introMatch \<Rightarrow>
                   (case indexOf introMatch cleaned of
                      Some introIndex \<Rightarrow> if 0 < introIndex then drop introIndex cleaned else cleaned
                    | None \<Rightarrow> cleaned)))"

text \<open>
  The models are tried in order. A request that throws, a response that is not OK
  and a text that is missing or not longer than 100 code units all lead to the next
  model; \<open>None\<close> is the \<open>null\<close> returned when every model failed.
\<close>

fun tryModels :: "host \<Rightarrow> jsstring \<Rightarrow> jsstring \<Rightarrow> jsstring list \<Rightarrow> jsstring option" where
  "tryModels H apiKey prompt [] = None"
| "tryModels H apiKey prompt (model # rest) =
     (case fetchText H (huggingFaceAPI @ js ''/'' @ model) apiKey prompt of
        Generated (Some generatedText) \<Rightarrow>
          if 100 < length generatedText then Some (cleanLLMOutput generatedText)
          else tryModels H apiKey prompt rest
      | _ \<Rightarrow> tryModels H apiKey prompt rest)"

definition polishScriptWithLLM :: "host \<Rightarrow> env \<Rightarrow> jsstring \<Rightarrow> jsstring option \<Rightarrow> jsstring option" where
  "polishScriptWithLLM H e baseScript topic =
     (case e ''HUGGINGFACE_API_KEY'' of
        None \<Rightarrow> None
      | Some apiKey \<Rightarrow>
          if apiKey = [] then None
          else tryModels H apiKey (buildPolishPrompt baseScript topic)
                 (defaultModel # fallbackModels))"

subsection \<open>The generator\<close>

text \<open>
  \<open>Math.ceil((wordCount / wordsPerMinute) * 60)\<close>: the division and the
  multiplication are operations on doubles, each rounded.
\<close>

definition durationOfWords :: "nat \<Rightarrow> int" where
  "durationOfWords n = \<lceil>flq (flq (of_nat n / wordsPerMinute) * 60)\<rceil>"

definition generateRankingScript :: "host \<Rightarrow> env \<Rightarrow> nat \<Rightarrow> RankingItem list \<Rightarrow> jsstring option \<Rightarrow> ScriptOptions \<Rightarrow> ScriptResult" where
  "generateRankingScript H e k rankingData topic options =
     (let sortedData = sort_key (\<lambda>i. - item_rank i) rankingData;
          template = generateTemplateScript H k sortedData
                       (firstTruthy topic (option_topic options))
                       (orElse (option_style options) Energetic)
                       (orElse (option_includeEmojis options) True);
          polished = (if orElse (option_useLLM options) False \<and> truthy (e ''HUGGINGFACE_API_KEY'')
                      then (case polishScriptWithLLM H e template topic of
                              Some p \<Rightarrow> if p \<noteq> [] then Some p else None
                            | None \<Rightarrow> None)
                      else None);
          final = orElse polished template
      in \<lparr>script = final,
          wasPolished = (polished \<noteq> None),
          wordCount = length (split_ws final),
          estimatedDuration = durationOfWords (length (split_ws final))\<rparr>)"


section \<open>Speech synthesizer\<close>

record TTSOptions =
  voice :: "jsstring option"
  speed :: "rat option"
  pitch :: "rat option"

record TTSResult =
  tts_audioPath :: jsstring
  tts_duration :: int
  tts_service :: TTSService

definition ttsSampleRate :: nat where "ttsSampleRate = 44100"

definition le16 :: "nat \<Rightarrow> jsstring" where
  "le16 n = [n mod 256, n div 256 mod 256]"

definition le32 :: "nat \<Rightarrow> jsstring" where
  "le32 n = [n mod 256, n div 256 mod 256, n div 65536 mod 256, n div 16777216 mod 256]"

text \<open>
  The 44 bytes of the WAV header for \<open>dataSize\<close> bytes of 16-bit stereo samples.
  \<open>writeUInt32LE\<close> throws when its value does not fit 32 bits, which the chunk size
  \<open>36 + dataSize\<close> decides; the message of that error is the runtime's and is
  abbreviated in \<open>writeSilentWav\<close>.
\<close>

definition wavHeader :: "nat \<Rightarrow> jsstring option" where
  "wavHeader dataSize =
     (let channels = 2; bitsPerSample = 16;
          byteRate = ttsSampleRate * channels * bitsPerSample div 8;
          blockAlign = channels * bitsPerSample div 8
      in if 36 + dataSize < 2 ^ 32 then
           Some (js ''RIFF'' @ le32 (36 + dataSize) @ js ''WAVE'' @ js ''fmt '' @ le32 16
                 @ le16 1 @ le16 channels @ le32 ttsSampleRate @ le32 byteRate
                 @ le16 blockAlign @ le16 bitsPerSample @ js ''data'' @ le32 dataSize)
         else None)"

definition mockDuration :: "jsstring \<Rightarrow> int" where
  "mockDuration scriptText = max 10 (durationOfWords (length (split_ws scriptText)))"

definition silenceCommand :: "int \<Rightarrow> jsstring \<Rightarrow> jsstring" where
  "silenceCommand seconds outPath =
     joinWith (js '' '')
       [js ''ffmpeg -y'',
        js ''-f lavfi'',
        js ''-i anullsrc=r='' @ showNat ttsSampleRate @ js '':cl=stereo'',
        js ''-t '' @ showInt seconds,
        js ''-acodec libmp3lame'',
        js ''-q:a 2'',
        quoted outPath]"

definition wavPath :: "jsstring \<Rightarrow> jsstring" where
  "wavPath outPath =
     (if \<not> endsWith (toLowerCase outPath) (js ''.wav'')
      then replaceExtension (\<lambda>c. c \<noteq> 46) (js ''.wav'') outPath
      else outPath)"

text \<open>
  \<open>generateMockTTS\<close>. The inner \<open>try\<close> covers the version check and the command
  that renders silence: when either fails the silent WAV file is written in-process,
  under the path \<open>wavPath\<close>. A failure there is rethrown as "Mock TTS failed".
\<close>

definition writeSilentWav :: "host \<Rightarrow> event list \<Rightarrow> jsstring \<Rightarrow> int \<Rightarrow> TTSResult io" where
  "writeSilentWav H lg outPath seconds =
     (let blockAlign = 2 * 16 div 8;
          numSamples = ttsSampleRate * nat seconds;
          dataSize = numSamples * blockAlign
      in case wavHeader dataSize of
           None \<Rightarrow> (lg, Inl (Error (js ''Mock TTS failed: '' @ js ''value out of range'')))
         | Some header \<Rightarrow>
             (case writeFile H lg (wavPath outPath) of
                Some diagnostic \<Rightarrow> (lg, Inl (Error (js ''Mock TTS failed: '' @ diagnostic)))
              | None \<Rightarrow>
                  (lg @ [WriteFile (wavPath outPath) (header @ replicate dataSize 0)],
                   Inr \<lparr>tts_audioPath = wavPath outPath, tts_duration = seconds,
                        tts_service = Mock\<rparr>)))"

definition generateMockTTS :: "host \<Rightarrow> event list \<Rightarrow> jsstring \<Rightarrow> jsstring \<Rightarrow> TTSResult io" where
  "generateMockTTS H lg scriptText outPath =
     (let seconds = mockDuration scriptText;
          lg1 = lg @ [Exec (js ''ffmpeg -version'')]
      in case exec H lg (js ''ffmpeg -version'') of
           Some _ \<Rightarrow> writeSilentWav H lg1 outPath seconds
         | None \<Rightarrow>
             (let lg2 = lg1 @ [Exec (silenceCommand seconds outPath)]
              in case exec H lg1 (silenceCommand seconds outPath) of
                   Some _ \<Rightarrow> writeSilentWav H lg2 outPath seconds
                 | None \<Rightarrow>
                     (lg2, Inr \<lparr>tts_audioPath = outPath, tts_duration = seconds,
                               tts_service = Mock\<rparr>)))"

text \<open>
  The three real backends. Each checks its own precondition first (the API key, or
  that the local engine can be invoked); what follows is the host's \<open>synthesize\<close>.
  The free backend and the local engine fall back to the mock on failure, the
  premium backend throws.
\<close>

definition spokenDuration :: "jsstring \<Rightarrow> int" where
  "spokenDuration scriptText = durationOfWords (length (split_ws scriptText))"

definition generateHuggingFaceTTS :: "host \<Rightarrow> env \<Rightarrow> event list \<Rightarrow> jsstring \<Rightarrow> jsstring \<Rightarrow> TTSOptions \<Rightarrow> TTSResult io" where
  "generateHuggingFaceTTS H e lg scriptText outPath options =
     (if \<not> truthy (e ''HUGGINGFACE_API_KEY'') then generateMockTTS H lg scriptText outPath
      else (case synthesize H lg (js ''huggingface'') scriptText outPath of
              (lg1, None) \<Rightarrow>
                (lg1, Inr \<lparr>tts_audioPath = outPath, tts_duration = spokenDuration scriptText,
                          tts_service = HuggingFace\<rparr>)
            | (lg1, Some _) \<Rightarrow> generateMockTTS H lg1 scriptText outPath))"

definition generateElevenLabsTTS :: "host \<Rightarrow> env \<Rightarrow> event list \<Rightarrow> jsstring \<Rightarrow> jsstring \<Rightarrow> TTSOptions \<Rightarrow> TTSResult io" where
  "generateElevenLabsTTS H e lg scriptText outPath options =
     (if \<not> truthy (e ''ELEVENLABS_API_KEY'') then generateMockTTS H lg scriptText outPath
      else (case synthesize H lg (js ''elevenlabs'') scriptText outPath of
              (lg1, None) \<Rightarrow>
                (lg1, Inr \<lparr>tts_audioPath = outPath, tts_duration = spokenDuration scriptText,
                          tts_service = ElevenLabs\<rparr>)
            | (lg1, Some diagnostic) \<Rightarrow>
                (lg1, Inl (Error (js ''ElevenLabs TTS failed: '' @ diagnostic)))))"

definition coquiCheck :: jsstring where
  "coquiCheck = js ''python3 -c '' @ quoted (js ''from TTS.api import TTS; print('' @ [39]
                  @ js ''OK'' @ [39] @ js '')'')"

definition generateCoquiTTS :: "host \<Rightarrow> event list \<Rightarrow> jsstring \<Rightarrow> jsstring \<Rightarrow> TTSOptions \<Rightarrow> TTSResult io" where
  "generateCoquiTTS H lg scriptText outPath options =
     (let lg1 = lg @ [Exec coquiCheck]
      in case exec H lg coquiCheck of
           Some _ \<Rightarrow> generateMockTTS H lg1 scriptText outPath
         | None \<Rightarrow>
             (case synthesize H lg1 (js ''coqui'') scriptText outPath of
                (lg2, None) \<Rightarrow>
                  (lg2, Inr \<lparr>tts_audioPath = outPath, tts_duration = spokenDuration scriptText,
                            tts_service = Coqui\<rparr>)
              | (lg2, Some _) \<Rightarrow> generateMockTTS H lg2 scriptText outPath))"

definition textToSpeech :: "host \<Rightarrow> env \<Rightarrow> event list \<Rightarrow> jsstring \<Rightarrow> jsstring option \<Rightarrow> TTSOptions \<Rightarrow> TTSResult io" where
  "textToSpeech H e lg scriptText outPath options =
     (let service = detectTTSService e;
          finalOutputPath =
            (if truthy outPath then orElse outPath []
             else pathJoin H (ttsTempDir H) (js ''tts_'' @ showNat (now H lg) @ js ''.mp3''))
      in case service of
           HuggingFace \<Rightarrow> generateHuggingFaceTTS H e lg scriptText finalOutputPath options
         | ElevenLabs \<Rightarrow> generateElevenLabsTTS H e lg scriptText finalOutputPath options
         | Coqui \<Rightarrow> generateCoquiTTS H lg scriptText finalOutputPath options
         | Mock \<Rightarrow> generateMockTTS H lg scriptText finalOutputPath)"

section \<open>Route handlers\<close>

subsection \<open>POST /api/generate-script\<close>

text \<open>
  The request body after \<open>request.json()\<close>. The fields \<open>tempId\<close> and \<open>title\<close>,
  which the handler checks to be strings, are \<open>None\<close> when they are missing or of
  another type; the description, the topic and the options are taken to have the
  types that the interface declares. The rank of a video is a finite number, an
  infinity (a literal too large for a double) or not a number at all. An element of
  the array that is \<open>null\<close> makes the handler throw when it reads the first field,
  which the handler's \<open>catch\<close> answers with status 500 and the message of the
  exception (abbreviated here).
\<close>

datatype rankField = RankNumber rat | RankInfinity | NotNumber

record VideoInput =
  tempId :: "jsstring option"
  title :: "jsstring option"
  input_rank :: rankField
  input_description :: "jsstring option"

record GenerateScriptRequest =
  request_videos :: "VideoInput option list option"
  request_topic :: "jsstring option"
  request_options :: "ScriptOptions option"

datatype 'a response = Rejected nat jsstring jsstring | Answered 'a

definition invalidRequest :: "jsstring \<Rightarrow> 'a response" where
  "invalidRequest details = Rejected 400 (js ''Invalid request'') details"

text \<open>
  The loop that validates each video: the first element that fails a check decides
  the response; \<open>None\<close> means that every element passed.
\<close>

fun validateVideos :: "VideoInput option list \<Rightarrow> 'a response option" where
  "validateVideos [] = None"
| "validateVideos (None # rest) =
     Some (Rejected 500 (js ''Failed to generate script'') (js ''TypeError''))"
| "validateVideos (Some video # rest) =
     (if \<not> truthy (tempId video) then
        Some (invalidRequest (js ''Each video must have a tempId string''))
      else if \<not> truthy (title video) then
        Some (invalidRequest (js ''Each video must have a title string''))
      else if (case input_rank video of RankNumber q \<Rightarrow> q < 1 \<or> 5 < q | _ \<Rightarrow> True) then
        Some (invalidRequest (js ''Each video must have a rank between 1 and 5''))
      else validateVideos rest)"

definition rankOf :: "VideoInput \<Rightarrow> rat" where
  "rankOf v = (case input_rank v of RankNumber q \<Rightarrow> q | _ \<Rightarrow> 0)"

definition toRankingItem :: "VideoInput \<Rightarrow> RankingItem" where
  "toRankingItem v =
     \<lparr>item_rank = rankOf v, titleOrName = orElse (title v) [],
      item_description = input_description v\<rparr>"

text \<open>
  The validation of the handler, up to the call of the script generator: either the
  response that rejects the request, or the ranking data handed on.
\<close>

definition validateScriptRequest :: "GenerateScriptRequest \<Rightarrow> RankingItem list response" where
  "validateScriptRequest body =
     (case request_videos body of
        None \<Rightarrow> invalidRequest (js ''videos array is required'')
      | Some vs \<Rightarrow>
          if length vs \<noteq> 5 then invalidRequest (js ''Exactly 5 videos are required'')
          else (case validateVideos vs of
                  Some r \<Rightarrow> r
                | None \<Rightarrow>
                    (let ranks = map rankOf (List.map_filter id vs) in
                     if length (remdups ranks) \<noteq> 5
                     then invalidRequest (js ''All ranks must be unique (1-5)'')
                     else Answered (map toRankingItem (List.map_filter id vs)))))"

definition POST_generate_script :: "host \<Rightarrow> env \<Rightarrow> nat \<Rightarrow> GenerateScriptRequest \<Rightarrow> ScriptResult response" where
  "POST_generate_script H e k body =
     (case validateScriptRequest body of
        Rejected status err details \<Rightarrow> Rejected status err details
      | Answered rankingData \<Rightarrow>
          (let options = orElse (request_options body)
                 \<lparr>option_topic = None, option_style = None, option_includeEmojis = None,
                  option_useLLM = None\<rparr>
           in Answered
                (generateRankingScript H e k rankingData (request_topic body)
                   (options\<lparr>option_useLLM :=
                      Some (orElse (option_useLLM options) (truthy (e ''HUGGINGFACE_API_KEY'')))\<rparr>))))"

subsection \<open>POST /api/process-video\<close>


















section \<open>An example host\<close>

text \<open>
  A host for the worked examples: every command and every write succeeds, probing
  reports nothing, paths are joined with a slash, and \<open>Number\<close> and \<open>parseInt\<close>
  read decimal digits.
\<close>

definition exampleHost :: host where
  "exampleHost =
     \<lparr>exec = (\<lambda>lg c. None), probe = (\<lambda>lg c. None), writeFile = (\<lambda>lg p. None),
      pathJoin = (\<lambda>a b. a @ [47] @ b), Number = decimalNumber, parseFloat = decimalNumber,
      numberToString = (\<lambda>q. []), random = (\<lambda>k. 0),
      fetchText = (\<lambda>u k p. Threw), synthesize = (\<lambda>lg s t p. (lg, None)),
      ttsTempDir = js ''/tmp/shorts-ranker/tts'', now = (\<lambda>lg. 0),
      parseInt = (\<lambda>v. case v of None \<Rightarrow> None
                         | Some t \<Rightarrow> if t = [] then None else digitsValue 0 t),
      extname = (\<lambda>p. []), readFile = (\<lambda>lg p. Some [])\<rparr>"

text \<open>Five items in upload order, two of them with a description.\<close>

definition exampleItems :: "RankingItem list" where
  "exampleItems =
     [\<lparr>item_rank = 3, titleOrName = js ''clip_a.mp4'', item_description = None\<rparr>,
      \<lparr>item_rank = 1, titleOrName = js ''clip_b.mp4'',
        item_description = Some (js ''Best play ever!'')\<rparr>,
      \<lparr>item_rank = 5, titleOrName = js ''clip_c.mp4'', item_description = None\<rparr>,
      \<lparr>item_rank = 2, titleOrName = js ''clip-d.mov'',
        item_description = Some (js ''A close second.'')\<rparr>,
      \<lparr>item_rank = 4, titleOrName = js ''clip_e.mp4'', item_description = None\<rparr>]"

definition exampleOptions :: ScriptOptions where
  "exampleOptions =
     \<lparr>option_topic = None, option_style = Some Casual, option_includeEmojis = Some False,
      option_useLLM = None\<rparr>"

section \<open>Shape of a text\<close>


text \<open>
  A host without \<open>ffmpeg\<close>: every command fails. A narration of 25 words, each
  followed by a space, so that the text ends with white space.
\<close>

definition bareHost :: host where
  "bareHost = exampleHost\<lparr>exec := (\<lambda>lg c. Some (js ''command not found''))\<rparr>"










section \<open>Verified properties\<close>

subsection \<open>Rounding to a double\<close>

text \<open>
  The rounding \<open>flq\<close> keeps 53 significant bits: the result differs from the exact
  value by at most half a unit in the last place, so by at most the fraction
  \<open>2^-53\<close> of the exact value, and a value \<open>m * 2^e\<close> with \<open>|m| < 2^53\<close> is not
  changed at all.
\<close>

lemma bitlen_pos: "0 < n \<Longrightarrow> 0 < bitlen n"
  by (simp add: bitlen.simps [of n])

lemma bitlen_bounds: "0 < n \<Longrightarrow> 2 ^ (bitlen n - 1) \<le> n \<and> n < 2 ^ bitlen n"
proof (induction n rule: bitlen.induct)
  case (1 n)
  have b: "bitlen n = Suc (bitlen (n div 2))"
    using 1(2) by (simp add: bitlen.simps [of n])
  show ?case
  proof (cases "n div 2 \<le> 0")
    case True
    with 1(2) have "n = 1" by linarith
    then show ?thesis by (simp add: bitlen.simps [of 1] bitlen.simps [of 0])
  next
    case False
    then have p: "0 < n div 2" by simp
    have ih: "2 ^ (bitlen (n div 2) - 1) \<le> n div 2 \<and> n div 2 < 2 ^ bitlen (n div 2)"
      using 1(1) 1(2) p by simp
    from bitlen_pos [OF p] obtain j where j: "bitlen (n div 2) = Suc j"
      by (cases "bitlen (n div 2)") auto
    from ih j have lo: "2 ^ j \<le> n div 2" and hi: "n div 2 < 2 * 2 ^ j" by simp_all
    have "2 * 2 ^ j \<le> n" using lo by linarith
    moreover have "n < 2 * (2 * 2 ^ j)" using hi by linarith
    ultimately show ?thesis by (simp add: b j)
  qed
qed

lemma pow2_powi: "pow2 e = 2 powi e"
  by (simp add: pow2_def power_int_def inverse_eq_divide power_one_over)

lemma pow2_pos: "0 < pow2 e"
  by (simp add: pow2_powi)

lemma pow2_add: "pow2 (a + b) = pow2 a * pow2 b"
  by (simp add: pow2_powi power_int_add)

lemma pow2_nat: "pow2 (int n) = 2 ^ n"
  by (simp add: pow2_def)

lemma pow2_mono: "a \<le> b \<Longrightarrow> pow2 a \<le> pow2 b"
  unfolding pow2_powi by (rule power_int_increasing) simp_all

lemma pow2_strict_mono: "a < b \<Longrightarrow> pow2 a < pow2 b"
  unfolding pow2_powi by (rule power_int_strict_increasing) simp_all

lemma pow2_less_iff: "pow2 a < pow2 b \<longleftrightarrow> a < b"
  using pow2_mono [of b a] pow2_strict_mono [of a b] by (cases "a < b") auto

lemma expo_bounds:
  assumes "q \<noteq> 0"
  shows "pow2 (expo q) \<le> \<bar>q\<bar> \<and> \<bar>q\<bar> < pow2 (expo q + 1)"
proof (cases "1 \<le> \<bar>q\<bar>")
  case True
  define n where "n = \<lfloor>\<bar>q\<bar>\<rfloor>"
  have n: "0 < n" using True by (simp add: n_def)
  have e: "expo q = int (bitlen n) - 1" using True by (simp add: expo_def n_def)
  from bitlen_pos [OF n] obtain j where j: "bitlen n = Suc j" by (cases "bitlen n") auto
  from bitlen_bounds [OF n] j have lo: "2 ^ j \<le> n" and hi: "n < 2 ^ Suc j" by simp_all
  have "(of_int (2 ^ j) :: rat) \<le> of_int n" using lo by (simp only: of_int_le_iff)
  also have "\<dots> \<le> \<bar>q\<bar>" by (simp add: n_def)
  finally have a: "(2 :: rat) ^ j \<le> \<bar>q\<bar>" by simp
  have "n + 1 \<le> 2 ^ Suc j" using hi by linarith
  then have "(of_int (n + 1) :: rat) \<le> of_int (2 ^ Suc j)" by (simp only: of_int_le_iff)
  moreover have "\<bar>q\<bar> < of_int (n + 1)" unfolding n_def by (simp; linarith)
  ultimately have b: "\<bar>q\<bar> < (2 :: rat) ^ Suc j" by simp
  have e1: "expo q = int j" and e2: "expo q + 1 = int (Suc j)" using e j by simp_all
  show ?thesis unfolding e2 unfolding e1 pow2_nat using a b by simp
next
  case False
  define a where "a = \<bar>q\<bar>"
  have a0: "0 < a" and a1: "a < 1" using assms False by (simp_all add: a_def)
  define m where "m = \<lceil>1 / a\<rceil> - 1"
  have "1 < 1 / a" using a0 a1 by simp
  then have "1 < \<lceil>1 / a\<rceil>" by linarith
  then have m: "0 < m" by (simp add: m_def)
  have e: "expo q = - int (bitlen m)" using False by (simp add: expo_def m_def a_def Let_def)
  from bitlen_pos [OF m] obtain j where j: "bitlen m = Suc j" by (cases "bitlen m") auto
  from bitlen_bounds [OF m] j have lo: "2 ^ j \<le> m" and hi: "m < 2 ^ Suc j" by simp_all
  have "\<lceil>1 / a\<rceil> \<le> 2 ^ Suc j" using hi by (simp add: m_def)
  then have "(of_int \<lceil>1 / a\<rceil> :: rat) \<le> of_int (2 ^ Suc j)" by (simp only: of_int_le_iff)
  then have c2: "(of_int \<lceil>1 / a\<rceil> :: rat) \<le> 2 ^ Suc j" by simp
  have c1: "1 / a \<le> of_int \<lceil>1 / a\<rceil>" by (rule le_of_int_ceiling)
  from c1 c2 have "1 / a \<le> (2 :: rat) ^ Suc j" by (rule order_trans)
  then have "1 \<le> 2 ^ Suc j * a" using a0 by (simp add: pos_divide_le_eq)
  then have lower: "1 / 2 ^ Suc j \<le> a" by (simp add: pos_divide_le_eq mult.commute)
  have "(of_int (2 ^ j) :: rat) \<le> of_int m" using lo by (simp only: of_int_le_iff)
  then have d1: "(2 :: rat) ^ j \<le> of_int m" by simp
  have d2: "of_int m < 1 / a" unfolding m_def by linarith
  from d1 d2 have "(2 :: rat) ^ j < 1 / a" by (rule le_less_trans)
  then have "2 ^ j * a < 1" using a0 by (simp add: pos_less_divide_eq)
  then have upper: "a < 1 / 2 ^ j" by (simp add: pos_less_divide_eq mult.commute)
  have nj: "nat (int k + 1) = Suc k" for k by simp
  have p1: "pow2 (expo q) = 1 / 2 ^ Suc j" by (simp add: e j pow2_def nj)
  have p2: "pow2 (expo q + 1) = 1 / 2 ^ j" by (cases j) (simp_all add: e j pow2_def nj)
  show ?thesis unfolding p1 p2 using lower upper by (simp add: a_def)
qed

lemma roundEven_error: "\<bar>of_int (roundEven m) - m\<bar> \<le> 1 / 2"
proof -
  have "of_int \<lfloor>m\<rfloor> \<le> m" "m < of_int \<lfloor>m\<rfloor> + 1" by linarith+
  then show ?thesis by (auto simp: roundEven_def Let_def abs_le_iff)
qed

lemma roundEven_of_int: "roundEven (of_int k) = k"
  by (simp add: roundEven_def)

lemma flq_error:
  assumes "q \<noteq> 0"
  shows "\<bar>flq q - q\<bar> \<le> pow2 (expo q - 53)"
proof -
  define u where "u = pow2 (expo q - 52)"
  have u: "0 < u" by (simp add: u_def pow2_pos)
  have f: "flq q = of_int (roundEven (q / u)) * u" using assms by (simp add: flq_def u_def Let_def)
  have "flq q - q = (of_int (roundEven (q / u)) - q / u) * u"
    using u by (simp add: f algebra_simps)
  then have "\<bar>flq q - q\<bar> = \<bar>of_int (roundEven (q / u)) - q / u\<bar> * u"
    using u by (simp add: abs_mult)
  also have "\<dots> \<le> (1 / 2) * u"
    using roundEven_error [of "q / u"] u by (simp only: mult_right_mono less_imp_le)
  also have "\<dots> = pow2 (expo q - 53)"
  proof -
    have "pow2 (expo q - 52) = pow2 ((expo q - 53) + 1)" by simp
    also have "\<dots> = pow2 (expo q - 53) * 2" by (simp only: pow2_add) (simp add: pow2_def)
    finally show ?thesis by (simp add: u_def)
  qed
  finally show ?thesis .
qed

lemma flq_relative: "\<bar>flq q - q\<bar> \<le> \<bar>q\<bar> / 2 ^ 53"
proof (cases "q = 0")
  case True then show ?thesis by (simp add: flq_def)
next
  case False
  have "pow2 (expo q) = pow2 ((expo q - 53) + 53)" by simp
  also have "\<dots> = pow2 (expo q - 53) * 2 ^ 53" by (simp only: pow2_add) (simp add: pow2_def)
  finally have "pow2 (expo q - 53) = pow2 (expo q) / 2 ^ 53" by simp
  moreover have "pow2 (expo q) / 2 ^ 53 \<le> \<bar>q\<bar> / 2 ^ 53"
    using expo_bounds [OF False] by (simp add: divide_right_mono)
  ultimately show ?thesis using flq_error [OF False] by linarith
qed

lemma flq_exact:
  assumes "\<bar>m\<bar> < 2 ^ 53"
  shows "flq (of_int m * pow2 e) = of_int m * pow2 e"
proof (cases "m = 0")
  case True then show ?thesis by (simp add: flq_def)
next
  case False
  define q where "q = of_int m * pow2 e"
  have q0: "q \<noteq> 0" using False pow2_pos [of e] by (simp add: q_def)
  have "(of_int \<bar>m\<bar> :: rat) < of_int (2 ^ 53)" using assms by (simp only: of_int_less_iff)
  then have "\<bar>of_int m :: rat\<bar> < 2 ^ 53" by simp
  then have "\<bar>q\<bar> < 2 ^ 53 * pow2 e"
    using pow2_pos [of e] by (simp add: q_def abs_mult)
  also have "2 ^ 53 * pow2 e = pow2 (53 + e)" by (simp only: pow2_add) (simp add: pow2_def)
  finally have "pow2 (expo q) < pow2 (53 + e)" using expo_bounds [OF q0] by linarith
  then have le: "expo q - 52 \<le> e" by (simp add: pow2_less_iff)
  define d where "d = nat (e - (expo q - 52))"
  define u where "u = pow2 (expo q - 52)"
  have u: "0 < u" by (simp add: u_def pow2_pos)
  have "pow2 e = pow2 ((expo q - 52) + int d)" using le by (simp add: d_def)
  also have "\<dots> = u * 2 ^ d" by (simp only: pow2_add pow2_nat u_def)
  finally have pe: "pow2 e = u * 2 ^ d" .
  have "q / u = of_int (m * 2 ^ d)" using u by (simp add: q_def pe)
  then have r: "roundEven (q / u) = m * 2 ^ d" by (simp only: roundEven_of_int)
  have "flq q = of_int (m * 2 ^ d) * u" using q0 r by (simp add: flq_def Let_def u_def [symmetric])
  also have "\<dots> = q" by (simp add: q_def pe)
  finally show ?thesis by (simp add: q_def)
qed

lemma flq_of_int: "\<bar>m\<bar> < 2 ^ 53 \<Longrightarrow> flq (of_int m) = of_int m"
  using flq_exact [of m 0] by (simp add: pow2_def)


subsection \<open>Backend selection\<close>

lemma serviceOfName_serviceName: "serviceOfName (serviceName svc) = Some svc"
  by (cases svc) (simp_all add: serviceOfName_def js_def)

lemma serviceOfName_Some: "serviceOfName s = Some svc \<Longrightarrow> s = serviceName svc"
  by (auto simp: serviceOfName_def split: if_splits)

lemma explicitService_None_iff:
  "explicitService e = None \<longleftrightarrow>
     (\<forall>v svc. e ''TTS_SERVICE'' = Some v \<longrightarrow> toLowerCase v \<noteq> serviceName svc)"
proof (cases "e ''TTS_SERVICE''")
  case None
  then show ?thesis by (simp add: explicitService_def)
next
  case (Some v)
  show ?thesis
  proof (cases "serviceOfName (toLowerCase v)")
    case None
    then have "\<And>svc. toLowerCase v \<noteq> serviceName svc"
      using serviceOfName_serviceName by (metis option.distinct(1))
    with Some None show ?thesis by (simp add: explicitService_def)
  next
    case (Some svc)
    with \<open>e ''TTS_SERVICE'' = Some v\<close> serviceOfName_Some [OF Some]
    show ?thesis by (auto simp: explicitService_def)
  qed
qed

text \<open>
  Claim C5. The backend of a synthesis call is chosen from the environment alone, in
  this order of precedence: the service named by \<open>TTS_SERVICE\<close> when that names one
  of the four services (in any letter case); otherwise ElevenLabs when its API key is
  a non-empty string; otherwise Hugging Face when its API key is a non-empty string;
  otherwise Coqui when \<open>USE_COQUI_TTS\<close> is exactly \<open>true\<close>; otherwise the mock. Two
  environments that agree on these four variables give the same backend, and
  \<open>textToSpeech\<close> takes the decision anew from the environment of each call.
\<close>

theorem detectTTSService_precedence:
  "(\<forall>v svc. e ''TTS_SERVICE'' = Some v \<and> toLowerCase v = serviceName svc
        \<longrightarrow> detectTTSService e = svc)
   \<and> ((\<forall>v svc. e ''TTS_SERVICE'' = Some v \<longrightarrow> toLowerCase v \<noteq> serviceName svc)
        \<longrightarrow> detectTTSService e =
             (if truthy (e ''ELEVENLABS_API_KEY'') then ElevenLabs
              else if truthy (e ''HUGGINGFACE_API_KEY'') then HuggingFace
              else if e ''USE_COQUI_TTS'' = Some (js ''true'') then Coqui
              else Mock))
   \<and> (\<forall>e'. e' ''TTS_SERVICE'' = e ''TTS_SERVICE''
          \<and> e' ''ELEVENLABS_API_KEY'' = e ''ELEVENLABS_API_KEY''
          \<and> e' ''HUGGINGFACE_API_KEY'' = e ''HUGGINGFACE_API_KEY''
          \<and> e' ''USE_COQUI_TTS'' = e ''USE_COQUI_TTS''
        \<longrightarrow> detectTTSService e' = detectTTSService e)
   \<and> (\<forall>H lg scriptText p options.
          textToSpeech H e lg scriptText (Some (c # p)) options =
            (case detectTTSService e of
               HuggingFace \<Rightarrow> generateHuggingFaceTTS H e lg scriptText (c # p) options
             | ElevenLabs \<Rightarrow> generateElevenLabsTTS H e lg scriptText (c # p) options
             | Coqui \<Rightarrow> generateCoquiTTS H lg scriptText (c # p) options
             | Mock \<Rightarrow> generateMockTTS H lg scriptText (c # p)))"
proof (intro conjI allI impI)
  fix v svc
  assume "e ''TTS_SERVICE'' = Some v \<and> toLowerCase v = serviceName svc"
  then have "explicitService e = Some svc"
    by (simp add: explicitService_def serviceOfName_serviceName)
  then show "detectTTSService e = svc" by (simp add: detectTTSService_def)
next
  assume "\<forall>v svc. e ''TTS_SERVICE'' = Some v \<longrightarrow> toLowerCase v \<noteq> serviceName svc"
  then have "explicitService e = None" by (simp add: explicitService_None_iff)
  then show "detectTTSService e =
             (if truthy (e ''ELEVENLABS_API_KEY'') then ElevenLabs
              else if truthy (e ''HUGGINGFACE_API_KEY'') then HuggingFace
              else if e ''USE_COQUI_TTS'' = Some (js ''true'') then Coqui
              else Mock)"
    by (simp add: detectTTSService_def)
next
  fix e' :: env
  assume "e' ''TTS_SERVICE'' = e ''TTS_SERVICE''
          \<and> e' ''ELEVENLABS_API_KEY'' = e ''ELEVENLABS_API_KEY''
          \<and> e' ''HUGGINGFACE_API_KEY'' = e ''HUGGINGFACE_API_KEY''
          \<and> e' ''USE_COQUI_TTS'' = e ''USE_COQUI_TTS''"
  then show "detectTTSService e' = detectTTSService e"
    by (simp add: detectTTSService_def explicitService_def)
next
  fix H lg scriptText p options
  show "textToSpeech H e lg scriptText (Some (c # p)) options =
            (case detectTTSService e of
               HuggingFace \<Rightarrow> generateHuggingFaceTTS H e lg scriptText (c # p) options
             | ElevenLabs \<Rightarrow> generateElevenLabsTTS H e lg scriptText (c # p) options
             | Coqui \<Rightarrow> generateCoquiTTS H lg scriptText (c # p) options
             | Mock \<Rightarrow> generateMockTTS H lg scriptText (c # p))"
    by (simp add: textToSpeech_def orElse_def split: TTSService.splits)
qed

theorem detectTTSService_precedence_witness:
  "detectTTSService ((\<lambda>k. None)(''TTS_SERVICE'' := Some (js ''Mock''),
       ''ELEVENLABS_API_KEY'' := Some (js ''sk-1''))) = Mock
   \<and> detectTTSService ((\<lambda>k. None)(''TTS_SERVICE'' := Some (js ''best''),
       ''HUGGINGFACE_API_KEY'' := Some (js ''hf-1''), ''USE_COQUI_TTS'' := Some (js ''true''))) = HuggingFace"
proof
  let ?e = "(\<lambda>k. None)(''TTS_SERVICE'' := Some (js ''Mock''),
       ''ELEVENLABS_API_KEY'' := Some (js ''sk-1'')) :: env"
  have h: "?e ''TTS_SERVICE'' = Some (js ''Mock'') \<and> toLowerCase (js ''Mock'') = serviceName Mock"
    by (simp add: toLowerCase_def lowerUnit_def js_def)
  from detectTTSService_precedence [of ?e] h show "detectTTSService ?e = Mock" by blast
next
  let ?e = "(\<lambda>k. None)(''TTS_SERVICE'' := Some (js ''best''),
       ''HUGGINGFACE_API_KEY'' := Some (js ''hf-1''), ''USE_COQUI_TTS'' := Some (js ''true'')) :: env"
  have h: "\<forall>v svc. ?e ''TTS_SERVICE'' = Some v \<longrightarrow> toLowerCase v \<noteq> serviceName svc"
  proof (intro allI impI)
    fix v svc assume "?e ''TTS_SERVICE'' = Some v"
    then have v: "v = js ''best''" by simp
    show "toLowerCase v \<noteq> serviceName svc"
      unfolding v by (cases svc) (simp_all add: toLowerCase_def lowerUnit_def js_def)
  qed
  have k: "\<not> truthy (?e ''ELEVENLABS_API_KEY'')" "truthy (?e ''HUGGINGFACE_API_KEY'')"
    by (simp_all add: js_def)
  from detectTTSService_precedence [of ?e] h
  have "detectTTSService ?e =
             (if truthy (?e ''ELEVENLABS_API_KEY'') then ElevenLabs
              else if truthy (?e ''HUGGINGFACE_API_KEY'') then HuggingFace
              else if ?e ''USE_COQUI_TTS'' = Some (js ''true'') then Coqui
              else Mock)" by blast
  with k show "detectTTSService ?e = HuggingFace" by simp
qed

subsection \<open>Frame rates\<close>

lemma splitOn_no_sep: "sep \<notin> set s \<Longrightarrow> splitOn sep s = [s]"
  by (induction s) auto

lemma splitOn_append: "sep \<notin> set a \<Longrightarrow> splitOn sep (a @ sep # b) = a # splitOn sep b"
  by (induction a) auto

lemma decimalNumber_30000: "decimalNumber (js ''30000'') = Fin 30000"
  by code_simp

lemma decimalNumber_1001: "decimalNumber (js ''1001'') = Fin 1001"
  by code_simp

lemma no_slash: "47 \<notin> set (js ''30000'')" "47 \<notin> set (js ''1001'')"
  by (simp_all add: js_def)

lemma flq_ntsc: "flq (30000 / 1001) = 1054476685978981 / 35184372088832"
  by code_simp

text \<open>
  Claim C4, as the specification states it: a frame rate \<open>N/D\<close> is parsed by integer
  division. The code divides two doubles: \<open>15/2\<close> gives 7.5, not 7.
\<close>

theorem evalFps_integer_division_counterexample:
  "evalFps decimalNumber decimalNumber (js ''15/2'') = Fin (15 / 2)
   \<and> evalFps decimalNumber decimalNumber (js ''15/2'') \<noteq> Fin (of_int (15 div 2))"
  by code_simp

text \<open>
  Claim C4, amended. For a frame rate \<open>N/D\<close> whose halves convert to the finite
  numbers \<open>n\<close> and \<open>d\<close>, \<open>evalFps\<close> returns the default 30 when \<open>d\<close> is zero and
  otherwise the quotient \<open>n / d\<close> of the two doubles, rounded to the nearest double;
  the quotient is not truncated to an integer.
\<close>

theorem evalFps_quotient:
  assumes "toNumber ns = Fin n" and "toNumber ds = Fin d"
    and "47 \<notin> set ns" and "47 \<notin> set ds"
  shows "evalFps toNumber toFloat (ns @ [47] @ ds) =
           (if d = 0 then Fin 30 else Fin (flq (n / d)))"
  using assms by (simp add: evalFps_def splitOn_append splitOn_no_sep)

theorem evalFps_quotient_witness:
  "evalFps decimalNumber decimalNumber (js ''30000'' @ [47] @ js ''1001'')
     = Fin (1054476685978981 / 35184372088832)"
  using evalFps_quotient [OF decimalNumber_30000 decimalNumber_1001 no_slash, of decimalNumber]
  by (simp add: flq_ntsc)

subsection \<open>Normalization\<close>

lemma showInt_1080: "showInt 1080 = js ''1080''" by code_simp
lemma showInt_1920: "showInt 1920 = js ''1920''" by code_simp
lemma showInt_30: "showInt 30 = js ''30''" by code_simp

lemma scaleFilter_text: "scaleFilter = js ''scale=1080:1920,setsar=1,fps=30''"
  by (simp add: scaleFilter_def joinWith_def targetWidth_def targetHeight_def targetFps_def
      showInt_1080 showInt_1920 showInt_30 js_def)

lemma padFilter_text:
  "padFilter = js ''scale=1080:-2,pad=1080:1920:(ow-iw)/2:(oh-ih)/2:black,setsar=1,fps=30''"
  by (simp add: padFilter_def joinWith_def targetWidth_def targetHeight_def targetFps_def
      showInt_1080 showInt_1920 showInt_30 js_def)

lemma cropFilter_text:
  "cropFilter inW inH =
     js ''crop='' @ showInt (cropWidth inH) @ js '':'' @ showInt inH @ js '':''
       @ showInt (cropX inW inH) @ js '':0,scale=1080:1920,setsar=1,fps=30''"
  by (simp add: cropFilter_def joinWith_def targetWidth_def targetHeight_def targetFps_def
      showInt_1080 showInt_1920 showInt_30 js_def)

lemma targetAspect_value: "targetAspect = Fin (9 / 16)"
  by code_simp


lemma fst_getVideoInfo: "fst (getVideoInfo H lg p) = lg @ [Exec (probeCommand p)]"
  by (simp add: getVideoInfo_def Let_def)

lemma normalizeVideo_events:
  "\<exists>rest. fst (normalizeVideo H lg inputPath outPath) =
      lg @ [Exec (probeCommand inputPath),
            Exec (normalizeCommand inputPath
                    (filterComplex (width (snd (getVideoInfo H lg inputPath)))
                                   (height (snd (getVideoInfo H lg inputPath)))) outPath)]
         @ rest"
proof -
  obtain lg1 info where g: "getVideoInfo H lg inputPath = (lg1, info)"
    by (cases "getVideoInfo H lg inputPath")
  have lg1: "lg1 = lg @ [Exec (probeCommand inputPath)]"
    using fst_getVideoInfo [of H lg inputPath] g by simp
  let ?cmd = "normalizeCommand inputPath (filterComplex (width info) (height info)) outPath"
  show ?thesis
  proof (cases "exec H lg1 ?cmd")
    case None
    obtain lg3 out where o: "getVideoInfo H (lg1 @ [Exec ?cmd]) outPath = (lg3, out)"
      by (cases "getVideoInfo H (lg1 @ [Exec ?cmd]) outPath")
    have "lg3 = (lg1 @ [Exec ?cmd]) @ [Exec (probeCommand outPath)]"
      using fst_getVideoInfo [of H "lg1 @ [Exec ?cmd]" outPath] o by simp
    with None g o lg1 show ?thesis
      by (simp add: normalizeVideo_def runFFmpeg_def thenDo_def)
  next
    case (Some d)
    with g lg1 show ?thesis
      by (simp add: normalizeVideo_def runFFmpeg_def thenDo_def)
  qed
qed



text \<open>
  For a probed width and height below \<open>2^49\<close> the computation on doubles agrees with
  exact arithmetic: the rounded quotient \<open>w / h\<close> lies on the same side of \<open>9/16\<close> as the
  exact quotient, and the products and halves that are rounded to give the crop
  width and offset are doubles already.
\<close>

lemma flq_nine_sixteenths: "flq (9 / 16) = 9 / 16"
  using flq_exact [of 9 "- 4"] by (simp add: pow2_def)

lemma cropWidth_exact:
  assumes "\<bar>inH\<bar> < 2 ^ 49"
  shows "cropWidth inH = (9 * inH + 8) div 16"
proof -
  have t: "(case targetAspect of Fin a \<Rightarrow> a | _ \<Rightarrow> 0) = 9 / 16"
    by (simp add: targetAspect_value)
  have "\<bar>9 * inH\<bar> < 2 ^ 53" using assms by simp
  from flq_exact [OF this, of "- 4"]
  have "flq (of_int (9 * inH) * pow2 (- 4)) = of_int (9 * inH) * pow2 (- 4)" .
  moreover have "of_int (9 * inH) * pow2 (- 4) = (of_int inH * (9 / 16) :: rat)"
  proof -
    have "pow2 (- 4) = 1 / 16" by (simp add: pow2_def)
    then show ?thesis by simp
  qed
  ultimately have f: "flq (of_int inH * (9 / 16)) = of_int inH * (9 / 16)" by (simp only:)
  have "of_int inH * (9 / 16) + 1 / 2 = (of_int (9 * inH + 8) / of_int 16 :: rat)"
    by simp
  then have "round (of_int inH * (9 / 16) :: rat) = \<lfloor>of_int (9 * inH + 8) / of_int 16 :: rat\<rfloor>"
    by (simp only: round_def)
  also have "\<dots> = (9 * inH + 8) div 16" by (rule floor_divide_of_int_eq)
  finally have "round (of_int inH * (9 / 16) :: rat) = (9 * inH + 8) div 16" .
  then show ?thesis unfolding cropWidth_def t f .
qed

lemma cropX_exact:
  assumes "\<bar>inW - cropWidth inH\<bar> < 2 ^ 53"
  shows "cropX inW inH = (inW - cropWidth inH + 1) div 2"
proof -
  define k where "k = inW - cropWidth inH"
  have k: "\<bar>k\<bar> < 2 ^ 53" using assms by (simp add: k_def)
  have a: "of_int inW - of_int (cropWidth inH) = (of_int k :: rat)"
    by (simp add: k_def)
  have p1: "pow2 (- 1) = 1 / 2" by (simp add: pow2_def)
  have "flq (of_int k * pow2 (- 1)) = of_int k * pow2 (- 1)" by (rule flq_exact [OF k])
  then have b: "flq (of_int k / 2) = of_int k / 2" by (simp add: p1)
  have "of_int k / 2 + 1 / 2 = (of_int (k + 1) / of_int 2 :: rat)"
    by simp
  then have "round (of_int k / 2 :: rat) = \<lfloor>of_int (k + 1) / of_int 2 :: rat\<rfloor>"
    by (simp only: round_def)
  also have "\<dots> = (k + 1) div 2" by (rule floor_divide_of_int_eq)
  finally have "round (of_int k / 2 :: rat) = (k + 1) div 2" .
  then have "cropX inW inH = (k + 1) div 2"
    unfolding cropX_def a flq_of_int [OF k] b .
  then show ?thesis by (simp only: k_def)
qed

lemma rounded_above:
  fixes W H a :: rat
  assumes "9007199254740992 * (W - a) \<le> W" "H < 562949953421312" "9 * H + 1 \<le> 16 * W"
  shows "9 * H < 16 * a"
proof (rule ccontr)
  assume "\<not> 9 * H < 16 * a"
  then have n: "16 * a \<le> 9 * H" by simp
  have m: "9007199254740991 * W \<le> 9007199254740992 * a" using assms(1) by simp
  have "9007199254740991 * (9 * H + 1) \<le> 9007199254740991 * (16 * W)"
    using assms(3) by (simp only: mult_le_cancel_left_pos)
  also have "\<dots> = 16 * (9007199254740991 * W)" by simp
  also have "\<dots> \<le> 16 * (9007199254740992 * a)" using m by (simp only: mult_le_cancel_left_pos)
  also have "\<dots> = 9007199254740992 * (16 * a)" by simp
  also have "\<dots> \<le> 9007199254740992 * (9 * H)" using n by (simp only: mult_le_cancel_left_pos)
  finally have "9007199254740991 \<le> 9 * H" by simp
  with assms(2) show False by simp
qed

lemma rounded_below:
  fixes W H a :: rat
  assumes "9007199254740992 * (a - W) \<le> W" "H < 562949953421312" "16 * W + 1 \<le> 9 * H"
  shows "16 * a < 9 * H"
proof (rule ccontr)
  assume "\<not> 16 * a < 9 * H"
  then have n: "9 * H \<le> 16 * a" by simp
  have m: "9007199254740992 * a \<le> 9007199254740993 * W" using assms(1) by simp
  have "9007199254740992 * (9 * H) \<le> 9007199254740992 * (16 * a)"
    using n by (simp only: mult_le_cancel_left_pos)
  also have "\<dots> = 16 * (9007199254740992 * a)" by simp
  also have "\<dots> \<le> 16 * (9007199254740993 * W)" using m by (simp only: mult_le_cancel_left_pos)
  also have "\<dots> = 9007199254740993 * (16 * W)" by simp
  also have "\<dots> \<le> 9007199254740993 * (9 * H - 1)"
    using assms(3) by (simp only: mult_le_cancel_left_pos)
  finally have "9007199254740993 \<le> 9 * H" by simp
  with assms(2) show False by simp
qed

lemma aspect_compare:
  assumes w: "0 \<le> inW" and h: "0 < inH" and b: "inH < 2 ^ 49"
  shows "js_gt (inputAspect inW inH) targetAspect \<longleftrightarrow> 9 * inH < 16 * inW"
    and "js_lt (inputAspect inW inH) targetAspect \<longleftrightarrow> 16 * inW < 9 * inH"
proof -
  define W :: rat where "W = of_int inW"
  define H :: rat where "H = of_int inH"
  define y where "y = flq (W / H)"
  have H0: "0 < H" using h by (simp add: H_def)
  have W0: "0 \<le> W" using w by (simp add: W_def)
  have Hb: "H < 2 ^ 49"
  proof -
    have "(of_int inH :: rat) < of_int (2 ^ 49)" using b by (simp only: of_int_less_iff)
    then show ?thesis by (simp add: H_def)
  qed
  then have Hb: "H < 562949953421312" by simp
  have ia: "inputAspect inW inH = Fin y"
    using h by (simp add: inputAspect_def y_def W_def H_def)
  have x0: "0 \<le> W / H" using W0 H0 by simp
  have "\<bar>y - W / H\<bar> \<le> (W / H) / 2 ^ 53"
    using flq_relative [of "W / H"] x0 by (simp add: y_def)
  then have e1: "y - W / H \<le> (W / H) / 2 ^ 53" and e2: "W / H - y \<le> (W / H) / 2 ^ 53"
    by linarith+
  have m1: "9007199254740992 * (y * H - W) \<le> W"
  proof -
    have "(y - W / H) * H \<le> ((W / H) / 2 ^ 53) * H"
      using e1 H0 by (simp only: mult_right_mono less_imp_le)
    then show ?thesis using H0 by (simp add: algebra_simps)
  qed
  have m2: "9007199254740992 * (W - y * H) \<le> W"
  proof -
    have "(W / H - y) * H \<le> ((W / H) / 2 ^ 53) * H"
      using e2 H0 by (simp only: mult_right_mono less_imp_le)
    then show ?thesis using H0 by (simp add: algebra_simps)
  qed
  have gt: "9 / 16 < y" if "9 * inH < 16 * inW"
  proof -
    from that have "9 * inH + 1 \<le> 16 * inW" by linarith
    then have "(of_int (9 * inH + 1) :: rat) \<le> of_int (16 * inW)" by (simp only: of_int_le_iff)
    then have "9 * H + 1 \<le> 16 * W" by (simp add: H_def W_def)
    with m2 Hb have "9 * H < 16 * (y * H)" by (rule rounded_above)
    then have "(9 / 16) * H < y * H" by simp
    then show ?thesis using H0 by (simp only: mult_less_cancel_right_pos)
  qed
  have lt: "y < 9 / 16" if "16 * inW < 9 * inH"
  proof -
    from that have "16 * inW + 1 \<le> 9 * inH" by linarith
    then have "(of_int (16 * inW + 1) :: rat) \<le> of_int (9 * inH)" by (simp only: of_int_le_iff)
    then have "16 * W + 1 \<le> 9 * H" by (simp add: H_def W_def)
    with m1 Hb have "16 * (y * H) < 9 * H" by (rule rounded_below)
    then have "y * H < (9 / 16) * H" by simp
    then show ?thesis using H0 by (simp only: mult_less_cancel_right_pos)
  qed
  have eq: "y = 9 / 16" if "16 * inW = 9 * inH"
  proof -
    from that have "(of_int (16 * inW) :: rat) = of_int (9 * inH)" by (simp only:)
    then have "16 * W = 9 * H" by (simp add: H_def W_def)
    then have "W / H = 9 / 16" using H0 by (simp add: field_simps)
    then show ?thesis by (simp only: y_def flq_nine_sixteenths)
  qed
  show "js_gt (inputAspect inW inH) targetAspect \<longleftrightarrow> 9 * inH < 16 * inW"
    using gt lt eq by (simp add: ia targetAspect_value) (metis less_irrefl less_asym linorder_neqE_linordered_idom)
  show "js_lt (inputAspect inW inH) targetAspect \<longleftrightarrow> 16 * inW < 9 * inH"
    using gt lt eq by (simp add: ia targetAspect_value js_lt_def) (metis less_irrefl less_asym linorder_neqE_linordered_idom)
qed

lemma crop_exact:
  assumes "0 \<le> inW" "0 < inH" "inW < 2 ^ 49" "inH < 2 ^ 49"
  shows "cropWidth inH = (9 * inH + 8) div 16"
    and "cropX inW inH = (inW - cropWidth inH + 1) div 2"
proof -
  have b: "inW < 562949953421312" "inH < 562949953421312" using assms(3,4) by simp_all
  have "\<bar>inH\<bar> < 2 ^ 49" using assms(2,4) by (simp only: abs_of_pos)
  then show cw: "cropWidth inH = (9 * inH + 8) div 16"
    by (rule cropWidth_exact)
  define c where "c = (9 * inH + 8) div 16"
  have "16 * c = 9 * inH + 8 - (9 * inH + 8) mod 16"
    by (simp add: c_def minus_mod_eq_mult_div)
  moreover have "0 \<le> (9 * inH + 8) mod 16" and "(9 * inH + 8) mod 16 < 16"
    by simp_all
  ultimately have "0 \<le> c" and "c \<le> inH" using assms(2) by linarith+
  then have "- 9007199254740992 < inW - c" and "inW - c < 9007199254740992"
    using assms(1) b by linarith+
  then have "\<bar>inW - c\<bar> < 9007199254740992" by (simp only: abs_less_iff) simp
  then have "\<bar>inW - cropWidth inH\<bar> < 2 ^ 53" by (simp add: cw c_def)
  then show "cropX inW inH = (inW - cropWidth inH + 1) div 2"
    by (rule cropX_exact)
qed

text \<open>
  Claim C7. The normalizer compares the input aspect ratio \<open>w / h\<close> with the target
  aspect ratio \<open>1080 / 1920 = 0.5625\<close>. A wider input is cropped to the width
  \<open>round (h * 0.5625)\<close> at the horizontal offset \<open>round ((w - cropWidth) / 2)\<close> and
  scaled to 1080x1920; a narrower input is scaled to the width 1080 and padded with
  black to the height 1920; otherwise the input is scaled to 1080x1920. For sizes
  below \<open>2^49\<close> the input counts as wider exactly when \<open>16 w > 9 h\<close> and as narrower
  exactly when \<open>16 w < 9 h\<close>, the crop width is \<open>(9 h + 8) div 16\<close> and the offset is
  \<open>(w - cropWidth + 1) div 2\<close>. Every filter ends by forcing square pixels and 30
  frames per second, and \<open>normalizeVideo\<close> runs \<open>ffmpeg\<close> with the filter chosen for
  the probed width and height.
\<close>

theorem filterComplex_decision:
  "(js_gt (inputAspect inW inH) targetAspect \<longrightarrow>
      filterComplex inW inH =
        js ''crop='' @ showInt (cropWidth inH) @ js '':'' @ showInt inH @ js '':''
          @ showInt (cropX inW inH) @ js '':0,scale=1080:1920,setsar=1,fps=30'')
   \<and> (\<not> js_gt (inputAspect inW inH) targetAspect \<and> js_lt (inputAspect inW inH) targetAspect \<longrightarrow>
      filterComplex inW inH =
        js ''scale=1080:-2,pad=1080:1920:(ow-iw)/2:(oh-ih)/2:black,setsar=1,fps=30'')
   \<and> (\<not> js_gt (inputAspect inW inH) targetAspect \<and> \<not> js_lt (inputAspect inW inH) targetAspect \<longrightarrow>
      filterComplex inW inH = js ''scale=1080:1920,setsar=1,fps=30'')
   \<and> inputAspect inW inH = js_div (Fin (of_int inW)) (Fin (of_int inH))
   \<and> targetAspect = Fin (9 / 16)
   \<and> cropWidth inH = round (flq (of_int inH * (9 / 16)))
   \<and> cropX inW inH = round (flq (flq (of_int inW - of_int (cropWidth inH)) / 2))
   \<and> (0 \<le> inW \<and> 0 < inH \<and> inW < 2 ^ 49 \<and> inH < 2 ^ 49 \<longrightarrow>
        (js_gt (inputAspect inW inH) targetAspect \<longleftrightarrow> 9 * inH < 16 * inW)
      \<and> (js_lt (inputAspect inW inH) targetAspect \<longleftrightarrow> 16 * inW < 9 * inH)
      \<and> cropWidth inH = (9 * inH + 8) div 16
      \<and> cropX inW inH = (inW - cropWidth inH + 1) div 2)
   \<and> (\<exists>pre. filterComplex inW inH = pre @ js '',setsar=1,fps=30'')
   \<and> (\<forall>H lg inputPath outPath. \<exists>rest.
         fst (normalizeVideo H lg inputPath outPath) =
           lg @ [Exec (probeCommand inputPath),
                 Exec (normalizeCommand inputPath
                    (filterComplex (width (snd (getVideoInfo H lg inputPath)))
                                   (height (snd (getVideoInfo H lg inputPath)))) outPath)]
              @ rest)"
proof -
  have suffix: "\<exists>pre. filterComplex inW inH = pre @ js '',setsar=1,fps=30''"
  proof -
    have a: "js '':0,scale=1080:1920,setsar=1,fps=30'' = js '':0,scale=1080:1920'' @ js '',setsar=1,fps=30''"
      and b: "js ''scale=1080:-2,pad=1080:1920:(ow-iw)/2:(oh-ih)/2:black,setsar=1,fps=30''
              = js ''scale=1080:-2,pad=1080:1920:(ow-iw)/2:(oh-ih)/2:black'' @ js '',setsar=1,fps=30''"
      and c: "js ''scale=1080:1920,setsar=1,fps=30'' = js ''scale=1080:1920'' @ js '',setsar=1,fps=30''"
      by (simp_all add: js_def)
    show ?thesis
      unfolding filterComplex_def cropFilter_text padFilter_text scaleFilter_text
      by (metis a b c append.assoc)
  qed
  have exact: "0 \<le> inW \<and> 0 < inH \<and> inW < 2 ^ 49 \<and> inH < 2 ^ 49 \<longrightarrow>
        (js_gt (inputAspect inW inH) targetAspect \<longleftrightarrow> 9 * inH < 16 * inW)
      \<and> (js_lt (inputAspect inW inH) targetAspect \<longleftrightarrow> 16 * inW < 9 * inH)
      \<and> cropWidth inH = (9 * inH + 8) div 16
      \<and> cropX inW inH = (inW - cropWidth inH + 1) div 2"
    using aspect_compare [of inW inH] crop_exact [of inW inH] by blast
  have branches: "(js_gt (inputAspect inW inH) targetAspect \<longrightarrow>
      filterComplex inW inH =
        js ''crop='' @ showInt (cropWidth inH) @ js '':'' @ showInt inH @ js '':''
          @ showInt (cropX inW inH) @ js '':0,scale=1080:1920,setsar=1,fps=30'')
   \<and> (\<not> js_gt (inputAspect inW inH) targetAspect \<and> js_lt (inputAspect inW inH) targetAspect \<longrightarrow>
      filterComplex inW inH =
        js ''scale=1080:-2,pad=1080:1920:(ow-iw)/2:(oh-ih)/2:black,setsar=1,fps=30'')
   \<and> (\<not> js_gt (inputAspect inW inH) targetAspect \<and> \<not> js_lt (inputAspect inW inH) targetAspect \<longrightarrow>
      filterComplex inW inH = js ''scale=1080:1920,setsar=1,fps=30'')"
    by (simp add: filterComplex_def cropFilter_text padFilter_text scaleFilter_text)
  have defs: "inputAspect inW inH = js_div (Fin (of_int inW)) (Fin (of_int inH))
   \<and> targetAspect = Fin (9 / 16)
   \<and> cropWidth inH = round (flq (of_int inH * (9 / 16)))
   \<and> cropX inW inH = round (flq (flq (of_int inW - of_int (cropWidth inH)) / 2))"
    by (simp add: targetAspect_value inputAspect_def cropWidth_def cropX_def)
  from branches defs exact suffix normalizeVideo_events show ?thesis by blast
qed

lemma wide_is_wider: "js_gt (inputAspect 1920 1080) targetAspect"
  by code_simp

lemma tall_is_narrower:
  "\<not> js_gt (inputAspect 1080 2400) targetAspect \<and> js_lt (inputAspect 1080 2400) targetAspect"
  by code_simp

lemma exact_is_equal:
  "\<not> js_gt (inputAspect 1080 1920) targetAspect \<and> \<not> js_lt (inputAspect 1080 1920) targetAspect"
  by code_simp

lemma crop_numbers: "showInt (cropWidth 1080) = js ''608''" "showInt (cropX 1920 1080) = js ''656''"
  by code_simp+

theorem filterComplex_decision_witness:
  "filterComplex 1920 1080 = js ''crop=608:1080:656:0,scale=1080:1920,setsar=1,fps=30''
   \<and> filterComplex 1080 2400 =
        js ''scale=1080:-2,pad=1080:1920:(ow-iw)/2:(oh-ih)/2:black,setsar=1,fps=30''
   \<and> filterComplex 1080 1920 = js ''scale=1080:1920,setsar=1,fps=30''"
proof (intro conjI)
  have r: "(0::int) \<le> 1920 \<and> (0::int) < 1080 \<and> (1920::int) < 2 ^ 49 \<and> (1080::int) < 2 ^ 49" by simp
  from filterComplex_decision [of 1920 1080] r
  have w: "js_gt (inputAspect 1920 1080) targetAspect \<longleftrightarrow> (9 * 1080 < (16 * 1920 :: int))"
    and cw: "cropWidth 1080 = (9 * 1080 + 8) div 16"
    and cx: "cropX 1920 1080 = (1920 - cropWidth 1080 + 1) div 2"
    by blast+
  from w have "js_gt (inputAspect 1920 1080) targetAspect" by simp
  with filterComplex_decision [of 1920 1080]
  have "filterComplex 1920 1080 =
        js ''crop='' @ showInt (cropWidth 1080) @ js '':'' @ showInt 1080 @ js '':''
          @ showInt (cropX 1920 1080) @ js '':0,scale=1080:1920,setsar=1,fps=30''"
    by blast
  moreover have "cropWidth 1080 = 608" using cw by simp
  moreover have "cropX 1920 1080 = 656" using cx \<open>cropWidth 1080 = 608\<close> by simp
  moreover have "showInt 608 = js ''608''" "showInt 656 = js ''656''" by code_simp+
  ultimately show "filterComplex 1920 1080 = js ''crop=608:1080:656:0,scale=1080:1920,setsar=1,fps=30''"
    by (simp add: showInt_1080 js_def)
next
  have r: "(0::int) \<le> 1080 \<and> (0::int) < 2400 \<and> (1080::int) < 2 ^ 49 \<and> (2400::int) < 2 ^ 49" by simp
  from filterComplex_decision [of 1080 2400] r
  have "js_gt (inputAspect 1080 2400) targetAspect \<longleftrightarrow> (9 * 2400 < (16 * 1080 :: int))"
    and "js_lt (inputAspect 1080 2400) targetAspect \<longleftrightarrow> (16 * 1080 < (9 * 2400 :: int))"
    by blast+
  then have "\<not> js_gt (inputAspect 1080 2400) targetAspect \<and> js_lt (inputAspect 1080 2400) targetAspect"
    by simp
  with filterComplex_decision [of 1080 2400]
  show "filterComplex 1080 2400 =
        js ''scale=1080:-2,pad=1080:1920:(ow-iw)/2:(oh-ih)/2:black,setsar=1,fps=30''"
    by blast
next
  have r: "(0::int) \<le> 1080 \<and> (0::int) < 1920 \<and> (1080::int) < 2 ^ 49 \<and> (1920::int) < 2 ^ 49" by simp
  from filterComplex_decision [of 1080 1920] r
  have "js_gt (inputAspect 1080 1920) targetAspect \<longleftrightarrow> (9 * 1920 < (16 * 1080 :: int))"
    and "js_lt (inputAspect 1080 1920) targetAspect \<longleftrightarrow> (16 * 1080 < (9 * 1920 :: int))"
    by blast+
  then have "\<not> js_gt (inputAspect 1080 1920) targetAspect \<and> \<not> js_lt (inputAspect 1080 1920) targetAspect"
    by simp
  with filterComplex_decision [of 1080 1920]
  show "filterComplex 1080 1920 = js ''scale=1080:1920,setsar=1,fps=30''"
    by blast
qed

subsection \<open>Word count and estimated duration\<close>





lemma tok_no_empty: "cur \<noteq> [] \<Longrightarrow> [] \<notin> set (tok cur s)"
  "[] \<notin> set (skipws s)"
  by (induction cur s and s rule: tok_skipws.induct) auto

lemma tok_concat:
  "list_all (\<lambda>c. \<not> isWhiteSpace c) cur \<Longrightarrow>
     list_all (\<lambda>t. list_all (\<lambda>c. \<not> isWhiteSpace c) t) (tok cur s)"
  "list_all (\<lambda>t. list_all (\<lambda>c. \<not> isWhiteSpace c) t) (skipws s)"
  by (induction cur s and s rule: tok_skipws.induct) auto




lemma prefixCI_length: "prefixCI w s = Some rest \<Longrightarrow> s = take (length w) s @ rest"
  by (induction w s rule: prefixCI.induct) (auto split: if_splits)

























lemma durationOfWords_155: "durationOfWords 155 = 63"
  by code_simp





subsection \<open>Narration without a credential\<close>

text \<open>
  Claim C8. Without a Hugging Face API key, the generator run with \<open>useLLM = true\<close>
  returns exactly what it returns with \<open>useLLM = false\<close> on the same items, topic and
  options and the same random choices: the template script, with \<open>wasPolished\<close> false
  in both runs.
\<close>

theorem generateRankingScript_useLLM_without_key:
  assumes "\<not> truthy (e ''HUGGINGFACE_API_KEY'')"
  shows "generateRankingScript H e k rankingData topic (options\<lparr>option_useLLM := Some True\<rparr>)
         = generateRankingScript H e k rankingData topic (options\<lparr>option_useLLM := Some False\<rparr>)
    \<and> \<not> wasPolished (generateRankingScript H e k rankingData topic (options\<lparr>option_useLLM := Some True\<rparr>))
    \<and> \<not> wasPolished (generateRankingScript H e k rankingData topic (options\<lparr>option_useLLM := Some False\<rparr>))
    \<and> script (generateRankingScript H e k rankingData topic (options\<lparr>option_useLLM := Some True\<rparr>))
        = generateTemplateScript H k (sort_key (\<lambda>i. - item_rank i) rankingData)
            (firstTruthy topic (option_topic options))
            (orElse (option_style options) Energetic)
            (orElse (option_includeEmojis options) True)"
  using assms by (simp add: generateRankingScript_def orElse_def Let_def)

theorem generateRankingScript_useLLM_without_key_witness:
  "generateRankingScript exampleHost (\<lambda>k. None) 0 exampleItems None
       (exampleOptions\<lparr>option_useLLM := Some True\<rparr>)
   = generateRankingScript exampleHost (\<lambda>k. None) 0 exampleItems None
       (exampleOptions\<lparr>option_useLLM := Some False\<rparr>)
   \<and> \<not> wasPolished (generateRankingScript exampleHost (\<lambda>k. None) 0 exampleItems None
       (exampleOptions\<lparr>option_useLLM := Some True\<rparr>))"
proof -
  have h: "\<not> truthy ((\<lambda>k. None) ''HUGGINGFACE_API_KEY'')" by simp
  from generateRankingScript_useLLM_without_key [OF h, of exampleHost 0 exampleItems None exampleOptions]
  show ?thesis by blast
qed

subsection \<open>Speech synthesis without a credential\<close>










subsection \<open>The silent WAV file and its path\<close>

lemma mockDuration_hello: "mockDuration (js ''hello world'') = 10"
  by code_simp

lemma wavPath_examples:
  "wavPath (js ''/tmp/job/voiceover'') = js ''/tmp/job/voiceover''"
  "wavPath (js ''/tmp/job/voiceover.mp3'') = js ''/tmp/job/voiceover.wav''"
  "wavPath (js ''/tmp/job.1/voiceover'') = js ''/tmp/job.wav''"
  by code_simp+

lemma wavHeader_ten_seconds: "wavHeader (ttsSampleRate * nat 10 * 4) \<noteq> None"
  by code_simp

text \<open>
  Claim C10. Without \<open>ffmpeg\<close> the mock writes a silent WAV file and reports the
  duration and the backend \<open>mock\<close> as before. The path is rewritten by replacing the
  text from the last dot on, so a path without an extension is returned as it was
  passed, still not ending in \<open>.wav\<close>, and a dot in a directory name is taken for the
  start of the extension.
\<close>

theorem generateMockTTS_extensionless:
  "snd (generateMockTTS bareHost [] (js ''hello world'') (js ''/tmp/job/voiceover''))
     = Inr \<lparr>tts_audioPath = js ''/tmp/job/voiceover'', tts_duration = 10, tts_service = Mock\<rparr>
   \<and> \<not> endsWith (js ''/tmp/job/voiceover'') (js ''.wav'')
   \<and> wavPath (js ''/tmp/job/voiceover.mp3'') = js ''/tmp/job/voiceover.wav''
   \<and> wavPath (js ''/tmp/job.1/voiceover'') = js ''/tmp/job.wav''"
proof -
  obtain header where h: "wavHeader (ttsSampleRate * nat 10 * 4) = Some header"
    using wavHeader_ten_seconds by blast
  have e: "\<not> endsWith (js ''/tmp/job/voiceover'') (js ''.wav'')" by code_simp
  have "snd (generateMockTTS bareHost [] (js ''hello world'') (js ''/tmp/job/voiceover''))
     = Inr \<lparr>tts_audioPath = js ''/tmp/job/voiceover'', tts_duration = 10, tts_service = Mock\<rparr>"
    using h
    by (simp add: generateMockTTS_def writeSilentWav_def bareHost_def exampleHost_def Let_def
        mockDuration_hello wavPath_examples)
  with e show ?thesis by (simp add: wavPath_examples)
qed

subsection \<open>Order of the clips\<close>



lemma sortVideosByRank_descending:
  "sorted_wrt (\<lambda>a b. rank b \<le> rank a) (sortVideosByRank vs)"
proof -
  have "sorted (map (\<lambda>v. - rank v) (sortVideosByRank vs))"
    by (simp add: sortVideosByRank_def)
  then show ?thesis by (simp add: sorted_wrt_map)
qed
























subsection \<open>Validation of the ranks\<close>








lemma POST_generate_script_Answered:
  "POST_generate_script H e k body = Answered r \<Longrightarrow>
     \<exists>items. validateScriptRequest body = Answered items"
  by (cases "validateScriptRequest body") (auto simp: POST_generate_script_def)







end
